theory Spec2Isabelle
  imports Complex_Main
begin

section \<open>Numbers, vectors and matrices\<close>

text \<open>
  The C++ \<^verbatim>\<open>float\<close> and \<^verbatim>\<open>double\<close> values of the program are modelled as
  reals: the rounding of an arithmetic operation, infinities and NaN are outside the
  model, and a literal such as \<^verbatim>\<open>0.3f\<close> stands for the number it is written as.

  One conversion is modelled. The cursor callback stores its \<^verbatim>\<open>double\<close> arguments
  in \<^verbatim>\<open>float\<close> globals and then subtracts the stored values from the arguments, so
  the differences it computes depend on what the narrowing does. \<open>float_round\<close> is the
  IEEE 754 conversion of a value to single precision: the nearest number with a
  significand of 24 bits, a tie going to the even significand. For a magnitude \<open>a\<close>
  between \<open>2\<^sup>e\<close> and \<open>2\<^sup>e\<^sup>+\<^sup>1\<close> the numbers of single precision are the
  multiples of \<open>float_ulp a = 2\<^sup>e\<^sup>-\<^sup>2\<^sup>3\<close>. Overflow and subnormal results
  (magnitudes above \<open>2\<^sup>1\<^sup>2\<^sup>8\<close> or below \<open>2\<^sup>-\<^sup>1\<^sup>2\<^sup>6\<close>) are outside the model.
  Everywhere else a narrowed value only enters arithmetic whose own rounding is outside
  the model, and the narrowing is left out with it.
\<close>

definition float_ulp :: "real \<Rightarrow> real" where
  "float_ulp a = 2 powr (of_int \<lfloor>log 2 a\<rfloor> - 23)"

definition round_even :: "real \<Rightarrow> int" where
  "round_even q =
     (let f = \<lfloor>q\<rfloor>; r = q - of_int f
      in if r < 1 / 2 then f else if 1 / 2 < r then f + 1 else if even f then f else f + 1)"

definition float_round :: "real \<Rightarrow> real" where
  "float_round v =
     (if v = 0 then 0
      else sgn v * (of_int (round_even (\<bar>v\<bar> / float_ulp \<bar>v\<bar>)) * float_ulp \<bar>v\<bar>))"

text \<open>A \<^verbatim>\<open>glm::vec3\<close> is a record of its three components.\<close>

record vec3 =
  x :: real
  y :: real
  z :: real

definition glm_vec3 :: "real \<Rightarrow> real \<Rightarrow> real \<Rightarrow> vec3" where
  "glm_vec3 a b c = \<lparr>x = a, y = b, z = c\<rparr>"

definition vadd :: "vec3 \<Rightarrow> vec3 \<Rightarrow> vec3" where
  "vadd u v = \<lparr>x = x u + x v, y = y u + y v, z = z u + z v\<rparr>"

definition vsub :: "vec3 \<Rightarrow> vec3 \<Rightarrow> vec3" where
  "vsub u v = \<lparr>x = x u - x v, y = y u - y v, z = z u - z v\<rparr>"

definition vscale :: "vec3 \<Rightarrow> real \<Rightarrow> vec3" where
  "vscale u k = \<lparr>x = x u * k, y = y u * k, z = z u * k\<rparr>"

definition glm_dot :: "vec3 \<Rightarrow> vec3 \<Rightarrow> real" where
  "glm_dot u v = x u * x v + y u * y v + z u * z v"

definition glm_cross :: "vec3 \<Rightarrow> vec3 \<Rightarrow> vec3" where
  "glm_cross u v =
     \<lparr>x = y u * z v - z u * y v,
      y = z u * x v - x u * z v,
      z = x u * y v - y u * x v\<rparr>"

definition glm_normalize :: "vec3 \<Rightarrow> vec3" where
  "glm_normalize v = vscale v (1 / sqrt (glm_dot v v))"

definition glm_radians :: "real \<Rightarrow> real" where
  "glm_radians d = d * (pi / 180)"

text \<open>
  The GLM matrix constructors are library code. A \<^verbatim>\<open>glm::mat4\<close> is represented
  by the call that builds it, with the arguments of the call; two matrices are equal in
  the model when they are built by the same calls on the same arguments.
\<close>

datatype mat4 =
    glm_lookAt vec3 vec3 vec3
  | glm_ortho real real real real real real
  | glm_perspective real real real real
  | glm_scale vec3
  | glm_rotate real vec3
  | glm_translate vec3
  | mat4_mul mat4 mat4

section \<open>Errors\<close>

text \<open>
  The program has no error values of its own. The model makes three ways of not
  finishing a call explicit: dereferencing a null pointer, indexing a four-element
  array outside \<open>0..3\<close> (both undefined behaviour in C++), and a busy-wait loop that
  is still waiting when the scripted input ends.
\<close>

datatype error = NullPointerDereference | IndexOutOfBounds | InputExhausted

definition bind_r :: "error + 'a \<Rightarrow> ('a \<Rightarrow> error + 'b) \<Rightarrow> error + 'b" where
  "bind_r m f = (case m of Inl e \<Rightarrow> Inl e | Inr v \<Rightarrow> f v)"

section \<open>The camera\<close>

text \<open>
  The class \<^verbatim>\<open>Camera\<close> is declared outside the two source files. Its fields are the
  ones the sources read and write (\<^verbatim>\<open>Position\<close>, \<^verbatim>\<open>Front\<close>, \<^verbatim>\<open>Up\<close>,
  \<^verbatim>\<open>Zoom\<close>, \<^verbatim>\<open>MovementSpeed\<close>) together with the ones the specification's camera
  state lists (right vector, yaw, pitch) and the fixed look sensitivity.
\<close>

record Camera =
  Position :: vec3
  Front :: vec3
  Up :: vec3
  Right :: vec3
  Yaw :: real
  Pitch :: real
  Zoom :: real
  MovementSpeed :: real
  MouseSensitivity :: real

datatype Camera_Movement = FORWARD | BACKWARD | LEFT | RIGHT | UP | DOWN

text \<open>
  Modelled from the spec: the camera's movement mutators are missing from the sources.
  Section 4.1: each translates the position along a basis vector scaled by the
  distance, and always succeeds.
\<close>

definition MoveForward :: "real \<Rightarrow> Camera \<Rightarrow> Camera" where
  "MoveForward d c = c\<lparr>Position := vadd (Position c) (vscale (Front c) d)\<rparr>"

definition MoveBackward :: "real \<Rightarrow> Camera \<Rightarrow> Camera" where
  "MoveBackward d c = c\<lparr>Position := vsub (Position c) (vscale (Front c) d)\<rparr>"

definition MoveLeft :: "real \<Rightarrow> Camera \<Rightarrow> Camera" where
  "MoveLeft d c = c\<lparr>Position := vsub (Position c) (vscale (Right c) d)\<rparr>"

definition MoveRight :: "real \<Rightarrow> Camera \<Rightarrow> Camera" where
  "MoveRight d c = c\<lparr>Position := vadd (Position c) (vscale (Right c) d)\<rparr>"

definition MoveUp :: "real \<Rightarrow> Camera \<Rightarrow> Camera" where
  "MoveUp d c = c\<lparr>Position := vadd (Position c) (vscale (Up c) d)\<rparr>"

definition MoveDown :: "real \<Rightarrow> Camera \<Rightarrow> Camera" where
  "MoveDown d c = c\<lparr>Position := vsub (Position c) (vscale (Up c) d)\<rparr>"

text \<open>
  \<^verbatim>\<open>Camera::ProcessKeyboard\<close> is missing from the sources, and the specification
  does not describe it. It is a parameter of the functions that call it: some function
  of the direction, the delta-time passed and the camera, giving the camera after the
  call.
\<close>

type_synonym camera_keyboard = "Camera_Movement \<Rightarrow> real \<Rightarrow> Camera \<Rightarrow> Camera"

text \<open>
  Modelled from the spec: \<^verbatim>\<open>Camera::ProcessMouseMovement\<close> is missing from the
  sources. Section 4.1, \<^verbatim>\<open>applyLookDelta\<close>: the offsets, scaled by the fixed
  sensitivity, are added to yaw and pitch; the pitch is clamped to 89 degrees either
  way; front, right and up are recomputed from yaw and pitch by the spherical to
  Cartesian conversion (the world's up direction being the y axis) and normalised.
\<close>

definition updateCameraVectors :: "Camera \<Rightarrow> Camera" where
  "updateCameraVectors c =
     (let front = \<lparr>x = cos (glm_radians (Yaw c)) * cos (glm_radians (Pitch c)),
                   y = sin (glm_radians (Pitch c)),
                   z = sin (glm_radians (Yaw c)) * cos (glm_radians (Pitch c))\<rparr>;
          c1 = c\<lparr>Front := glm_normalize front\<rparr>;
          c2 = c1\<lparr>Right := glm_normalize (glm_cross (Front c1) (glm_vec3 0 1 0))\<rparr>
      in c2\<lparr>Up := glm_normalize (glm_cross (Right c2) (Front c2))\<rparr>)"

definition ProcessMouseMovement :: "real \<Rightarrow> real \<Rightarrow> Camera \<Rightarrow> Camera" where
  "ProcessMouseMovement xoffset yoffset c =
     (let c1 = c\<lparr>Yaw := Yaw c + xoffset * MouseSensitivity c,
                  Pitch := Pitch c + yoffset * MouseSensitivity c\<rparr>;
          c2 = (if Pitch c1 > 89 then c1\<lparr>Pitch := 89\<rparr> else c1);
          c3 = (if Pitch c2 < - 89 then c2\<lparr>Pitch := - 89\<rparr> else c2)
      in updateCameraVectors c3)"

text \<open>
  Modelled from the spec: \<^verbatim>\<open>Camera::GetViewMatrix\<close> is missing from the sources.
  Section 4.1: a look-at transform built from position, position plus front, and up.
\<close>

definition GetViewMatrix :: "Camera \<Rightarrow> mat4" where
  "GetViewMatrix c = glm_lookAt (Position c) (vadd (Position c) (Front c)) (Up c)"

section \<open>The globals of ViewManager.cpp\<close>

definition WINDOW_WIDTH :: int where "WINDOW_WIDTH = 1000"
definition WINDOW_HEIGHT :: int where "WINDOW_HEIGHT = 800"
definition g_ViewName :: string where "g_ViewName = ''view''"
definition g_ProjectionName :: string where "g_ProjectionName = ''projection''"

record globals =
  g_pCamera :: "Camera option"
  gLastX :: real
  gLastY :: real
  gFirstMouse :: bool
  gDeltaTime :: real
  gLastFrame :: real
  bOrthographicProjection :: bool

text \<open>The initialisers of the anonymous namespace (lines 20 to 44).\<close>

definition globals_init :: globals where
  "globals_init =
     \<lparr>g_pCamera = None,
      gLastX = real_of_int WINDOW_WIDTH / 2,
      gLastY = real_of_int WINDOW_HEIGHT / 2,
      gFirstMouse = True,
      gDeltaTime = 0,
      gLastFrame = 0,
      bOrthographicProjection = False\<rparr>"

subsection \<open>The cursor and scroll callbacks\<close>

text \<open>
  The arguments of the cursor callback are of type \<^verbatim>\<open>double\<close>; \<^verbatim>\<open>gLastX\<close>,
  \<^verbatim>\<open>gLastY\<close> and the two offsets are of type \<^verbatim>\<open>float\<close> (lines 33, 34, 148 and
  149). Each assignment to one of them narrows its right-hand side; the subtractions
  themselves are carried out in \<^verbatim>\<open>double\<close>.
\<close>

definition Mouse_Position_Callback :: "real \<Rightarrow> real \<Rightarrow> globals \<Rightarrow> error + globals" where
  "Mouse_Position_Callback xMousePos yMousePos g =
     (let g1 = (if gFirstMouse g
                then g\<lparr>gLastX := float_round xMousePos, gLastY := float_round yMousePos,
                       gFirstMouse := False\<rparr>
                else g);
          xOffset = float_round (xMousePos - gLastX g1);
          yOffset = float_round (gLastY g1 - yMousePos);
          g2 = g1\<lparr>gLastX := float_round xMousePos, gLastY := float_round yMousePos\<rparr>
      in case g_pCamera g2 of
           None \<Rightarrow> Inl NullPointerDereference
         | Some c \<Rightarrow> Inr (g2\<lparr>g_pCamera := Some (ProcessMouseMovement xOffset yOffset c)\<rparr>))"

definition Scroll_Callback :: "real \<Rightarrow> real \<Rightarrow> globals \<Rightarrow> globals" where
  "Scroll_Callback xOffset yOffset g =
     (case g_pCamera g of
        None \<Rightarrow> g
      | Some c \<Rightarrow>
          (let c1 = c\<lparr>Zoom := Zoom c - yOffset\<rparr>;
               c2 = (if Zoom c1 < 1 then c1\<lparr>Zoom := 1\<rparr> else c1);
               c3 = (if Zoom c2 > 90 then c2\<lparr>Zoom := 90\<rparr> else c2)
           in g\<lparr>g_pCamera := Some c3\<rparr>))"

text \<open>
  GLFW calls the two callbacks while it polls events. An event carries the arguments
  of its callback; a sequence of events is dispatched in order and stops at the first
  error.
\<close>

datatype event = CursorPos real real | Scroll real real

fun dispatch :: "event \<Rightarrow> globals \<Rightarrow> error + globals" where
  "dispatch (CursorPos xMousePos yMousePos) g = Mouse_Position_Callback xMousePos yMousePos g"
| "dispatch (Scroll xOffset yOffset) g = Inr (Scroll_Callback xOffset yOffset g)"

fun dispatch_all :: "event list \<Rightarrow> globals \<Rightarrow> error + globals" where
  "dispatch_all [] g = Inr g"
| "dispatch_all (e # es) g = bind_r (dispatch e g) (dispatch_all es)"

section \<open>The window, the keys and the shader interface\<close>

text \<open>
  A pointer is \<open>None\<close> when it is null and \<open>Some a\<close> when it holds the address
  \<open>a\<close>. The key state that \<^verbatim>\<open>glfwGetKey\<close> returns is an input of the model: a
  function from the window handle and the key code to the value read. The constants are
  the ones of the GLFW header.
\<close>

type_synonym ptr = "nat option"

type_synonym key_reader = "ptr \<Rightarrow> int \<Rightarrow> int"

abbreviation GLFW_RELEASE :: int where "GLFW_RELEASE \<equiv> 0"
abbreviation GLFW_PRESS :: int where "GLFW_PRESS \<equiv> 1"

abbreviation GLFW_KEY_APOSTROPHE :: int where "GLFW_KEY_APOSTROPHE \<equiv> 39"
abbreviation GLFW_KEY_MINUS :: int where "GLFW_KEY_MINUS \<equiv> 45"
abbreviation GLFW_KEY_1 :: int where "GLFW_KEY_1 \<equiv> 49"
abbreviation GLFW_KEY_2 :: int where "GLFW_KEY_2 \<equiv> 50"
abbreviation GLFW_KEY_3 :: int where "GLFW_KEY_3 \<equiv> 51"
abbreviation GLFW_KEY_4 :: int where "GLFW_KEY_4 \<equiv> 52"
abbreviation GLFW_KEY_SEMICOLON :: int where "GLFW_KEY_SEMICOLON \<equiv> 59"
abbreviation GLFW_KEY_EQUAL :: int where "GLFW_KEY_EQUAL \<equiv> 61"
abbreviation GLFW_KEY_A :: int where "GLFW_KEY_A \<equiv> 65"
abbreviation GLFW_KEY_D :: int where "GLFW_KEY_D \<equiv> 68"
abbreviation GLFW_KEY_E :: int where "GLFW_KEY_E \<equiv> 69"
abbreviation GLFW_KEY_F :: int where "GLFW_KEY_F \<equiv> 70"
abbreviation GLFW_KEY_L :: int where "GLFW_KEY_L \<equiv> 76"
abbreviation GLFW_KEY_P :: int where "GLFW_KEY_P \<equiv> 80"
abbreviation GLFW_KEY_Q :: int where "GLFW_KEY_Q \<equiv> 81"
abbreviation GLFW_KEY_S :: int where "GLFW_KEY_S \<equiv> 83"
abbreviation GLFW_KEY_T :: int where "GLFW_KEY_T \<equiv> 84"
abbreviation GLFW_KEY_W :: int where "GLFW_KEY_W \<equiv> 87"
abbreviation GLFW_KEY_X :: int where "GLFW_KEY_X \<equiv> 88"
abbreviation GLFW_KEY_Z :: int where "GLFW_KEY_Z \<equiv> 90"
abbreviation GLFW_KEY_ESCAPE :: int where "GLFW_KEY_ESCAPE \<equiv> 256"
abbreviation GLFW_KEY_RIGHT :: int where "GLFW_KEY_RIGHT \<equiv> 262"
abbreviation GLFW_KEY_LEFT :: int where "GLFW_KEY_LEFT \<equiv> 263"
abbreviation GLFW_KEY_DOWN :: int where "GLFW_KEY_DOWN \<equiv> 264"
abbreviation GLFW_KEY_UP :: int where "GLFW_KEY_UP \<equiv> 265"
abbreviation GLFW_KEY_PAGE_UP :: int where "GLFW_KEY_PAGE_UP \<equiv> 266"
abbreviation GLFW_KEY_PAGE_DOWN :: int where "GLFW_KEY_PAGE_DOWN \<equiv> 267"
abbreviation GLFW_KEY_KP_SUBTRACT :: int where "GLFW_KEY_KP_SUBTRACT \<equiv> 333"
abbreviation GLFW_KEY_KP_ADD :: int where "GLFW_KEY_KP_ADD \<equiv> 334"
abbreviation GLFW_KEY_LEFT_SHIFT :: int where "GLFW_KEY_LEFT_SHIFT \<equiv> 340"

text \<open>
  The shader manager is an external object. A call of one of its setters is an effect
  of the caller, recorded as a pair of the uniform's name and the value written; a
  function that writes to the shader returns the list of its writes, in order.
\<close>

datatype uniform =
    Mat4Value mat4
  | Vec2Value real real
  | Vec3Value vec3
  | Vec4Value real real real real
  | FloatValue real
  | IntValue int
  | Sampler2DValue int

type_synonym shader_write = "string \<times> uniform"

subsection \<open>Running statements in sequence\<close>

text \<open>
  A statement is a function from the state to an error or the next state. A block of
  statements runs them in order and stops at the first error. The two conditionals are
  the two shapes of the source: \<^verbatim>\<open>if (glfwGetKey(window, key) == GLFW_PRESS) body\<close>
  for a held key, and \<^verbatim>\<open>if (KeyPressedOnce(key)) body\<close> for a key that fires once
  per press.
\<close>

primrec run_steps :: "('s \<Rightarrow> error + 's) list \<Rightarrow> 's \<Rightarrow> error + 's" where
  "run_steps [] s = Inr s"
| "run_steps (f # fs) s = bind_r (f s) (run_steps fs)"

definition if_held :: "key_reader \<Rightarrow> ptr \<Rightarrow> int \<Rightarrow> ('s \<Rightarrow> error + 's) \<Rightarrow> 's \<Rightarrow> error + 's" where
  "if_held glfwGetKey window key body s =
     (if glfwGetKey window key = GLFW_PRESS then body s else Inr s)"

section \<open>The view manager\<close>

text \<open>
  The members are the ones ViewManager.cpp uses; their declarations and initial values
  are in a header outside the sources. The three light arrays have four elements.
  \<open>window_title\<close> holds what \<^verbatim>\<open>SetWindowTitleWithSelection\<close> last wrote into the
  title of the window: the number of the selected light and the speed scale.
\<close>

record ViewManager =
  m_pShaderManager :: ptr
  m_pWindow :: ptr
  m_window :: ptr
  m_keyOnce :: "int \<Rightarrow> bool"
  m_camera :: Camera
  m_moveSpeedScale :: real
  m_selectedPointLight :: int
  m_pointLightPos :: "vec3 list"
  m_pointLightOn :: "bool list"
  m_pointIntensity :: "real list"
  m_dirLightOn :: bool
  m_flashlightOn :: bool
  m_ambientBoost :: real
  window_title :: "int \<times> real"

text \<open>
  The constructor (lines 51 to 64). \<open>new_Camera\<close> is the camera as its own default
  constructor leaves it, \<open>this\<close> the object with the header's member initialisers.
\<close>

definition ViewManager_ctor :: "ptr \<Rightarrow> Camera \<Rightarrow> ViewManager \<Rightarrow> globals \<Rightarrow> ViewManager \<times> globals" where
  "ViewManager_ctor pShaderManager new_Camera this g =
     (this\<lparr>m_pShaderManager := pShaderManager, m_pWindow := None\<rparr>,
      g\<lparr>g_pCamera := Some (new_Camera
           \<lparr>Position := glm_vec3 0 5 12,
            Front := glm_vec3 0 (- 0.5) (- 2),
            Up := glm_vec3 0 1 0,
            Zoom := 80,
            MovementSpeed := 20\<rparr>)\<rparr>)"

subsection \<open>KeyPressedOnce (lines 232 to 242)\<close>

definition KeyPressedOnce :: "key_reader \<Rightarrow> int \<Rightarrow> ViewManager \<Rightarrow> bool \<times> ViewManager" where
  "KeyPressedOnce glfwGetKey key s =
     (let state = glfwGetKey (m_window s) key in
      if state = GLFW_PRESS \<and> \<not> m_keyOnce s key
      then (True, s\<lparr>m_keyOnce := (m_keyOnce s)(key := True)\<rparr>)
      else if state = GLFW_RELEASE
      then (False, s\<lparr>m_keyOnce := (m_keyOnce s)(key := False)\<rparr>)
      else (False, s))"

definition if_once :: "key_reader \<Rightarrow> int \<Rightarrow> (ViewManager \<Rightarrow> error + ViewManager) \<Rightarrow> ViewManager \<Rightarrow> error + ViewManager" where
  "if_once glfwGetKey key body s =
     (case KeyPressedOnce glfwGetKey key s of
        (True, s1) \<Rightarrow> body s1
      | (False, s1) \<Rightarrow> Inr s1)"

definition SetWindowTitleWithSelection :: "ViewManager \<Rightarrow> ViewManager" where
  "SetWindowTitleWithSelection s =
     s\<lparr>window_title := (m_selectedPointLight s + 1, m_moveSpeedScale s)\<rparr>"

subsection \<open>ProcessKeyboardEvents (lines 178 to 227)\<close>

text \<open>
  The loop after the projection toggle polls events until the P key no longer reads
  pressed. Its input is a script: one entry for each evaluation of the loop condition,
  holding the value \<^verbatim>\<open>glfwGetKey\<close> returns there and the events that
  \<^verbatim>\<open>glfwPollEvents\<close> dispatches to the callbacks if the body runs. A script that ends
  while the key still reads pressed leaves the loop waiting.
\<close>

type_synonym poll_script = "(int \<times> event list) list"

fun wait_while_pressed :: "poll_script \<Rightarrow> globals \<Rightarrow> error + globals" where
  "wait_while_pressed [] g = Inl InputExhausted"
| "wait_while_pressed ((state, events) # rest) g =
     (if state = GLFW_PRESS
      then bind_r (dispatch_all events g) (wait_while_pressed rest)
      else Inr g)"

text \<open>
  \<^verbatim>\<open>g_pCamera->ProcessKeyboard(direction, gDeltaTime)\<close>, for the camera's method
  \<open>ProcessKeyboard\<close>.
\<close>

definition camera_ProcessKeyboard :: "camera_keyboard \<Rightarrow> Camera_Movement \<Rightarrow> globals \<Rightarrow> error + globals" where
  "camera_ProcessKeyboard ProcessKeyboard direction g =
     (case g_pCamera g of
        None \<Rightarrow> Inl NullPointerDereference
      | Some c \<Rightarrow> Inr (g\<lparr>g_pCamera := Some (ProcessKeyboard direction (gDeltaTime g) c)\<rparr>))"

definition toggle_projection :: "poll_script \<Rightarrow> globals \<Rightarrow> error + globals" where
  "toggle_projection polls g =
     wait_while_pressed polls (g\<lparr>bOrthographicProjection := \<not> bOrthographicProjection g\<rparr>)"

definition ProcessKeyboardEvents :: "camera_keyboard \<Rightarrow> key_reader \<Rightarrow> poll_script \<Rightarrow> ViewManager \<Rightarrow> globals \<Rightarrow> error + globals" where
  "ProcessKeyboardEvents ProcessKeyboard glfwGetKey polls this g =
     run_steps
       [if_held glfwGetKey (m_pWindow this) GLFW_KEY_W (camera_ProcessKeyboard ProcessKeyboard FORWARD),
        if_held glfwGetKey (m_pWindow this) GLFW_KEY_S (camera_ProcessKeyboard ProcessKeyboard BACKWARD),
        if_held glfwGetKey (m_pWindow this) GLFW_KEY_A (camera_ProcessKeyboard ProcessKeyboard LEFT),
        if_held glfwGetKey (m_pWindow this) GLFW_KEY_D (camera_ProcessKeyboard ProcessKeyboard RIGHT),
        if_held glfwGetKey (m_pWindow this) GLFW_KEY_Q (camera_ProcessKeyboard ProcessKeyboard UP),
        if_held glfwGetKey (m_pWindow this) GLFW_KEY_E (camera_ProcessKeyboard ProcessKeyboard DOWN),
        if_held glfwGetKey (m_pWindow this) GLFW_KEY_P (toggle_projection polls)] g"

text \<open>The first statement of the function asks the window to close when Escape is pressed.\<close>

definition close_requested :: "key_reader \<Rightarrow> ViewManager \<Rightarrow> bool" where
  "close_requested glfwGetKey this = (glfwGetKey (m_pWindow this) GLFW_KEY_ESCAPE = GLFW_PRESS)"

subsection \<open>PrepareSceneView (lines 259 to 302)\<close>

text \<open>
  \<open>currentFrame\<close> is the value of \<^verbatim>\<open>glfwGetTime\<close>, \<open>ProcessKeyboard\<close> the
  camera's method of that name. The result holds the globals after the call, the two
  matrices computed, and the writes to the shader.
\<close>

record frame_result =
  frame_globals :: globals
  view :: mat4
  projection :: mat4
  shader_writes :: "shader_write list"
  should_close :: bool

definition PrepareSceneView :: "camera_keyboard \<Rightarrow> key_reader \<Rightarrow> poll_script \<Rightarrow> real \<Rightarrow> ViewManager \<Rightarrow> globals \<Rightarrow> error + frame_result" where
  "PrepareSceneView ProcessKeyboard glfwGetKey polls currentFrame this g =
     (let g1 = g\<lparr>gDeltaTime := currentFrame - gLastFrame g, gLastFrame := currentFrame\<rparr> in
      bind_r (ProcessKeyboardEvents ProcessKeyboard glfwGetKey polls this g1) (\<lambda>g2.
        case g_pCamera g2 of
          None \<Rightarrow> Inl NullPointerDereference
        | Some c \<Rightarrow>
            (let view = GetViewMatrix c;
                 projection =
                   (if bOrthographicProjection g2
                    then (let orthoSize = 5;
                              aspectRatio = real_of_int WINDOW_WIDTH / real_of_int WINDOW_HEIGHT
                          in glm_ortho (- orthoSize * aspectRatio) (orthoSize * aspectRatio)
                               (- orthoSize) orthoSize 0.1 100)
                    else glm_perspective (glm_radians (Zoom c))
                           (real_of_int WINDOW_WIDTH / real_of_int WINDOW_HEIGHT) 0.1 100)
             in Inr \<lparr>frame_globals = g2,
                     view = view,
                     projection = projection,
                     shader_writes =
                       (if m_pShaderManager this \<noteq> None
                        then [(g_ViewName, Mat4Value view),
                              (g_ProjectionName, Mat4Value projection),
                              (''viewPosition'', Vec3Value (Position c))]
                        else []),
                     should_close = close_requested glfwGetKey this\<rparr>)))"

subsection \<open>HandleInteractiveShortcuts (lines 304 to 357)\<close>

text \<open>
  An access to element \<^verbatim>\<open>m_selectedPointLight\<close> of one of the light arrays is
  defined for the indices 0 to 3 only.
\<close>

definition selected_index :: "ViewManager \<Rightarrow> error + nat" where
  "selected_index s =
     (if 0 \<le> m_selectedPointLight s \<and> m_selectedPointLight s < 4
      then Inr (nat (m_selectedPointLight s))
      else Inl IndexOutOfBounds)"

definition nudge_selected :: "(vec3 \<Rightarrow> vec3) \<Rightarrow> ViewManager \<Rightarrow> error + ViewManager" where
  "nudge_selected f s =
     bind_r (selected_index s) (\<lambda>i.
       Inr (s\<lparr>m_pointLightPos := (m_pointLightPos s)[i := f (m_pointLightPos s ! i)]\<rparr>))"

definition toggle_selected :: "ViewManager \<Rightarrow> error + ViewManager" where
  "toggle_selected s =
     bind_r (selected_index s) (\<lambda>i.
       Inr (s\<lparr>m_pointLightOn := (m_pointLightOn s)[i := \<not> m_pointLightOn s ! i]\<rparr>))"

definition set_selected_intensity :: "(real \<Rightarrow> real) \<Rightarrow> ViewManager \<Rightarrow> error + ViewManager" where
  "set_selected_intensity f s =
     bind_r (selected_index s) (\<lambda>i.
       Inr (s\<lparr>m_pointIntensity := (m_pointIntensity s)[i := f (m_pointIntensity s ! i)]\<rparr>))"

text \<open>Lines 306 to 309: the distance of one frame's movement.\<close>

definition frame_speed :: "key_reader \<Rightarrow> ptr \<Rightarrow> ViewManager \<Rightarrow> real" where
  "frame_speed glfwGetKey window s =
     (let dt = 0.016;
          base = 3.0;
          speed = base * m_moveSpeedScale s * dt
      in if glfwGetKey window GLFW_KEY_LEFT_SHIFT = GLFW_PRESS then speed * 2.0 else speed)"

text \<open>Lines 312 to 317: the camera.\<close>

definition camera_keys :: "key_reader \<Rightarrow> ptr \<Rightarrow> real \<Rightarrow> ViewManager \<Rightarrow> error + ViewManager" where
  "camera_keys glfwGetKey window speed =
     run_steps
       [if_held glfwGetKey window GLFW_KEY_W (\<lambda>s. Inr (s\<lparr>m_camera := MoveForward speed (m_camera s)\<rparr>)),
        if_held glfwGetKey window GLFW_KEY_S (\<lambda>s. Inr (s\<lparr>m_camera := MoveBackward speed (m_camera s)\<rparr>)),
        if_held glfwGetKey window GLFW_KEY_A (\<lambda>s. Inr (s\<lparr>m_camera := MoveLeft speed (m_camera s)\<rparr>)),
        if_held glfwGetKey window GLFW_KEY_D (\<lambda>s. Inr (s\<lparr>m_camera := MoveRight speed (m_camera s)\<rparr>)),
        if_held glfwGetKey window GLFW_KEY_Q (\<lambda>s. Inr (s\<lparr>m_camera := MoveDown speed (m_camera s)\<rparr>)),
        if_held glfwGetKey window GLFW_KEY_E (\<lambda>s. Inr (s\<lparr>m_camera := MoveUp speed (m_camera s)\<rparr>))]"

text \<open>Lines 320 to 327: the speed scale.\<close>

definition speed_keys :: "key_reader \<Rightarrow> ViewManager \<Rightarrow> error + ViewManager" where
  "speed_keys glfwGetKey =
     run_steps
       [if_once glfwGetKey GLFW_KEY_Z (\<lambda>s. Inr (SetWindowTitleWithSelection
            (s\<lparr>m_moveSpeedScale := max 0.25 (m_moveSpeedScale s * 0.5)\<rparr>))),
        if_once glfwGetKey GLFW_KEY_X (\<lambda>s. Inr (SetWindowTitleWithSelection
            (s\<lparr>m_moveSpeedScale := min 8.0 (m_moveSpeedScale s * 2.0)\<rparr>)))]"

text \<open>Lines 330 to 333: the selection of a point light.\<close>

definition select_keys :: "key_reader \<Rightarrow> ViewManager \<Rightarrow> error + ViewManager" where
  "select_keys glfwGetKey =
     run_steps
       [if_once glfwGetKey GLFW_KEY_1 (\<lambda>s. Inr (SetWindowTitleWithSelection (s\<lparr>m_selectedPointLight := 0\<rparr>))),
        if_once glfwGetKey GLFW_KEY_2 (\<lambda>s. Inr (SetWindowTitleWithSelection (s\<lparr>m_selectedPointLight := 1\<rparr>))),
        if_once glfwGetKey GLFW_KEY_3 (\<lambda>s. Inr (SetWindowTitleWithSelection (s\<lparr>m_selectedPointLight := 2\<rparr>))),
        if_once glfwGetKey GLFW_KEY_4 (\<lambda>s. Inr (SetWindowTitleWithSelection (s\<lparr>m_selectedPointLight := 3\<rparr>)))]"

text \<open>Lines 335 to 340: the position of the selected light.\<close>

definition nudge_keys :: "key_reader \<Rightarrow> ptr \<Rightarrow> real \<Rightarrow> ViewManager \<Rightarrow> error + ViewManager" where
  "nudge_keys glfwGetKey window speed =
     run_steps
       [if_held glfwGetKey window GLFW_KEY_LEFT (nudge_selected (\<lambda>p. p\<lparr>x := x p - speed\<rparr>)),
        if_held glfwGetKey window GLFW_KEY_RIGHT (nudge_selected (\<lambda>p. p\<lparr>x := x p + speed\<rparr>)),
        if_held glfwGetKey window GLFW_KEY_UP (nudge_selected (\<lambda>p. p\<lparr>z := z p - speed\<rparr>)),
        if_held glfwGetKey window GLFW_KEY_DOWN (nudge_selected (\<lambda>p. p\<lparr>z := z p + speed\<rparr>)),
        if_held glfwGetKey window GLFW_KEY_PAGE_UP (nudge_selected (\<lambda>p. p\<lparr>y := y p + speed\<rparr>)),
        if_held glfwGetKey window GLFW_KEY_PAGE_DOWN (nudge_selected (\<lambda>p. p\<lparr>y := y p - speed\<rparr>))]"

text \<open>Lines 342 to 344: the three switches.\<close>

definition toggle_keys :: "key_reader \<Rightarrow> ViewManager \<Rightarrow> error + ViewManager" where
  "toggle_keys glfwGetKey =
     run_steps
       [if_once glfwGetKey GLFW_KEY_L (\<lambda>s. Inr (s\<lparr>m_dirLightOn := \<not> m_dirLightOn s\<rparr>)),
        if_once glfwGetKey GLFW_KEY_F (\<lambda>s. Inr (s\<lparr>m_flashlightOn := \<not> m_flashlightOn s\<rparr>)),
        if_once glfwGetKey GLFW_KEY_T toggle_selected]"

text \<open>
  Lines 346 to 351: the intensity of the selected light. The operator \<^verbatim>\<open>||\<close>
  evaluates \<^verbatim>\<open>KeyPressedOnce\<close> only when the keypad key does not read pressed.
\<close>

definition intensity_keys :: "key_reader \<Rightarrow> ptr \<Rightarrow> ViewManager \<Rightarrow> error + ViewManager" where
  "intensity_keys glfwGetKey window =
     run_steps
       [(\<lambda>s. if glfwGetKey window GLFW_KEY_KP_ADD = GLFW_PRESS
             then set_selected_intensity (\<lambda>v. min 3.0 (v + 0.05)) s
             else if_once glfwGetKey GLFW_KEY_EQUAL
                    (set_selected_intensity (\<lambda>v. min 3.0 (v + 0.05))) s),
        (\<lambda>s. if glfwGetKey window GLFW_KEY_KP_SUBTRACT = GLFW_PRESS
             then set_selected_intensity (\<lambda>v. max 0.0 (v - 0.05)) s
             else if_once glfwGetKey GLFW_KEY_MINUS
                    (set_selected_intensity (\<lambda>v. max 0.0 (v - 0.05))) s)]"

text \<open>Lines 353 and 354: the ambient boost.\<close>

definition ambient_keys :: "key_reader \<Rightarrow> ptr \<Rightarrow> ViewManager \<Rightarrow> error + ViewManager" where
  "ambient_keys glfwGetKey window =
     run_steps
       [if_held glfwGetKey window GLFW_KEY_SEMICOLON
          (\<lambda>s. Inr (s\<lparr>m_ambientBoost := max 0.0 (m_ambientBoost s - 0.001)\<rparr>)),
        if_held glfwGetKey window GLFW_KEY_APOSTROPHE
          (\<lambda>s. Inr (s\<lparr>m_ambientBoost := min 0.3 (m_ambientBoost s + 0.001)\<rparr>))]"

text \<open>
  The function runs the seven blocks in the order of the source. Its last statement
  calls \<^verbatim>\<open>UploadInteractiveUniforms\<close>, which is defined outside the sources and
  reads the state computed here; the model returns that state.
\<close>

definition HandleInteractiveShortcuts :: "key_reader \<Rightarrow> ptr \<Rightarrow> ViewManager \<Rightarrow> error + ViewManager" where
  "HandleInteractiveShortcuts glfwGetKey window s =
     (let speed = frame_speed glfwGetKey window s in
      run_steps
        [camera_keys glfwGetKey window speed,
         speed_keys glfwGetKey,
         select_keys glfwGetKey,
         nudge_keys glfwGetKey window speed,
         toggle_keys glfwGetKey,
         intensity_keys glfwGetKey window,
         ambient_keys glfwGetKey window] s)"

text \<open>One call for each frame, each frame with its own key state.\<close>

fun HandleInteractiveShortcuts_frames :: "key_reader list \<Rightarrow> ptr \<Rightarrow> ViewManager \<Rightarrow> error + ViewManager" where
  "HandleInteractiveShortcuts_frames [] window s = Inr s"
| "HandleInteractiveShortcuts_frames (k # ks) window s =
     bind_r (HandleInteractiveShortcuts k window s) (HandleInteractiveShortcuts_frames ks window)"

section \<open>The scene manager's shader setters\<close>

text \<open>
  SceneManager.cpp, lines 20 to 353. The members are the ones these functions use; the
  texture table pairs an OpenGL identifier with a tag.
\<close>

definition g_ModelName :: string where "g_ModelName = ''model''"
definition g_ColorValueName :: string where "g_ColorValueName = ''objectColor''"
definition g_TextureValueName :: string where "g_TextureValueName = ''objectTexture''"
definition g_UseTextureName :: string where "g_UseTextureName = ''bUseTexture''"

record OBJECT_MATERIAL =
  ambientColor :: vec3
  ambientStrength :: real
  diffuseColor :: vec3
  specularColor :: vec3
  shininess :: real
  tag :: string

type_synonym TEXTURE_INFO = "int \<times> string"

record SceneManager =
  m_pShaderManager_scene :: ptr
  m_objectMaterials :: "OBJECT_MATERIAL list"
  m_textureIDs :: "TEXTURE_INFO list"
  m_loadedTextures :: int

text \<open>
  FindTextureSlot (lines 188 to 206): the loop over the first \<^verbatim>\<open>m_loadedTextures\<close>
  entries of the table. Reading an entry the table does not have is an error.
\<close>

function FindTextureSlot_from :: "SceneManager \<Rightarrow> string \<Rightarrow> int \<Rightarrow> error + int" where
  "FindTextureSlot_from this t index =
     (if index < m_loadedTextures this
      then (if 0 \<le> index \<and> nat index < length (m_textureIDs this)
            then (if snd (m_textureIDs this ! nat index) = t
                  then Inr index
                  else FindTextureSlot_from this t (index + 1))
            else Inl IndexOutOfBounds)
      else Inr (- 1))"
  by pat_completeness auto
termination
  by (relation "measure (\<lambda>(this, t, index). nat (m_loadedTextures this - index))") auto

definition FindTextureSlot :: "string \<Rightarrow> SceneManager \<Rightarrow> error + int" where
  "FindTextureSlot t this = FindTextureSlot_from this t 0"

text \<open>
  FindMaterial (lines 214 to 229) returns whether a material with the tag exists and
  copies the first such material out; the model returns that material, if any.
\<close>

definition FindMaterial :: "string \<Rightarrow> SceneManager \<Rightarrow> OBJECT_MATERIAL option" where
  "FindMaterial t this =
     (if m_objectMaterials this = [] then None
      else find (\<lambda>m. tag m = t) (m_objectMaterials this))"

text \<open>SetTransformations (lines 237 to 268).\<close>

definition SetTransformations :: "vec3 \<Rightarrow> real \<Rightarrow> real \<Rightarrow> real \<Rightarrow> vec3 \<Rightarrow> SceneManager \<Rightarrow> error + shader_write list" where
  "SetTransformations scaleXYZ XrotationDegrees YrotationDegrees ZrotationDegrees positionXYZ this =
     (let scale = glm_scale scaleXYZ;
          rotationX = glm_rotate (glm_radians XrotationDegrees) (glm_vec3 1 0 0);
          rotationY = glm_rotate (glm_radians YrotationDegrees) (glm_vec3 0 1 0);
          rotationZ = glm_rotate (glm_radians ZrotationDegrees) (glm_vec3 0 0 1);
          translation = glm_translate positionXYZ;
          modelView = mat4_mul (mat4_mul (mat4_mul (mat4_mul translation rotationZ) rotationY) rotationX) scale
      in if m_pShaderManager_scene this \<noteq> None
         then Inr [(g_ModelName, Mat4Value modelView)]
         else Inr [])"

text \<open>SetShaderColor (lines 275 to 294).\<close>

definition SetShaderColor :: "real \<Rightarrow> real \<Rightarrow> real \<Rightarrow> real \<Rightarrow> SceneManager \<Rightarrow> error + shader_write list" where
  "SetShaderColor redColorValue greenColorValue blueColorValue alphaValue this =
     (if m_pShaderManager_scene this \<noteq> None
      then Inr [(g_UseTextureName, IntValue 0),
                (g_ColorValueName, Vec4Value redColorValue greenColorValue blueColorValue alphaValue)]
      else Inr [])"

text \<open>SetShaderTexture (lines 302 to 316).\<close>

definition SetShaderTexture :: "string \<Rightarrow> SceneManager \<Rightarrow> error + shader_write list" where
  "SetShaderTexture textureTag this =
     (if m_pShaderManager_scene this \<noteq> None
      then bind_r (FindTextureSlot textureTag this) (\<lambda>textureID.
             if textureID < 0 then Inr []
             else Inr [(g_UseTextureName, IntValue 1),
                       (g_TextureValueName, Sampler2DValue textureID)])
      else Inr [])"

text \<open>SetTextureUVScale (lines 324 to 330).\<close>

definition SetTextureUVScale :: "real \<Rightarrow> real \<Rightarrow> SceneManager \<Rightarrow> error + shader_write list" where
  "SetTextureUVScale u v this =
     (if m_pShaderManager_scene this \<noteq> None
      then Inr [(''UVscale'', Vec2Value u v)]
      else Inr [])"

text \<open>
  SetShaderMaterial (lines 338 to 353). After the early return for a tag that has no
  material, the five writes go through the pointer without a test of it.
\<close>

definition SetShaderMaterial :: "string \<Rightarrow> SceneManager \<Rightarrow> error + shader_write list" where
  "SetShaderMaterial materialTag this =
     (case FindMaterial materialTag this of
        None \<Rightarrow> Inr []
      | Some material \<Rightarrow>
          (case m_pShaderManager_scene this of
             None \<Rightarrow> Inl NullPointerDereference
           | Some shader \<Rightarrow>
               Inr [(''material.diffuseColor'', Vec3Value (diffuseColor material)),
                    (''material.specularColor'', Vec3Value (specularColor material)),
                    (''material.shininess'', FloatValue (shininess material)),
                    (''material.ambientColor'', Vec3Value (ambientColor material)),
                    (''material.ambientStrength'', FloatValue (ambientStrength material))]))"

text \<open>
  ApplyAndDraw (lines 564 to 578): the four setters in order, then the draw call,
  which belongs to the mesh library. The result is the writes of the four setters.
\<close>

definition ApplyAndDraw :: "string \<Rightarrow> string \<Rightarrow> real \<times> real \<Rightarrow> vec3 \<Rightarrow> real \<Rightarrow> real \<Rightarrow> real \<Rightarrow> vec3 \<Rightarrow> SceneManager \<Rightarrow> error + shader_write list" where
  "ApplyAndDraw texTag matTag uv scale rx ry rz pos this =
     bind_r (SetShaderTexture texTag this) (\<lambda>w1.
     bind_r (SetShaderMaterial matTag this) (\<lambda>w2.
     bind_r (SetTextureUVScale (fst uv) (snd uv) this) (\<lambda>w3.
     bind_r (SetTransformations scale rx ry rz pos this) (\<lambda>w4.
       Inr (w1 @ w2 @ w3 @ w4)))))"

text \<open>
  The first material that \<^verbatim>\<open>DefineObjectMaterials\<close> adds (lines 414 to 421), and a
  scene manager that was constructed with a null shader manager and holds that
  material.
\<close>

definition wood :: OBJECT_MATERIAL where
  "wood =
     \<lparr>ambientColor = glm_vec3 0.2 0.1 0.05,
      ambientStrength = 0.4,
      diffuseColor = glm_vec3 0.5 0.25 0.1,
      specularColor = glm_vec3 0.3 0.2 0.1,
      shininess = 8.0,
      tag = ''wood''\<rparr>"

definition null_shader_scene :: SceneManager where
  "null_shader_scene =
     \<lparr>m_pShaderManager_scene = None,
      m_objectMaterials = [wood],
      m_textureIDs = [],
      m_loadedTextures = 0\<rparr>"

section \<open>A concrete start-up state\<close>

text \<open>
  The examples run on the state after the constructor, for one choice of what the
  header and the camera's default constructor provide: a camera that looks along the
  negative z axis (yaw of minus 90 degrees, level pitch), four lights that are switched
  on with intensity 1, speed scale 1, and every key latch clear.
\<close>

definition example_new_Camera :: Camera where
  "example_new_Camera =
     \<lparr>Position = glm_vec3 0 0 0,
      Front = glm_vec3 0 0 (- 1),
      Up = glm_vec3 0 1 0,
      Right = glm_vec3 1 0 0,
      Yaw = - 90,
      Pitch = 0,
      Zoom = 45,
      MovementSpeed = 2.5,
      MouseSensitivity = 0.1\<rparr>"

definition example_this :: ViewManager where
  "example_this =
     \<lparr>m_pShaderManager = None,
      m_pWindow = None,
      m_window = Some 1,
      m_keyOnce = (\<lambda>key. False),
      m_camera = example_new_Camera,
      m_moveSpeedScale = 1,
      m_selectedPointLight = 0,
      m_pointLightPos = [glm_vec3 2 3 2, glm_vec3 (- 2) 3 2, glm_vec3 2 3 (- 2), glm_vec3 (- 2) 3 (- 2)],
      m_pointLightOn = [True, True, True, True],
      m_pointIntensity = [1, 1, 1, 1],
      m_dirLightOn = True,
      m_flashlightOn = False,
      m_ambientBoost = 0,
      window_title = (1, 1)\<rparr>"

definition startup_camera :: Camera where
  "startup_camera =
     example_new_Camera
       \<lparr>Position := glm_vec3 0 5 12,
        Front := glm_vec3 0 (- 0.5) (- 2),
        Up := glm_vec3 0 1 0,
        Zoom := 80,
        MovementSpeed := 20\<rparr>"

text \<open>
  The examples run with a camera whose \<^verbatim>\<open>ProcessKeyboard\<close> moves it by its movement
  speed times the delta-time passed, along the basis vector of the direction.
\<close>

definition example_ProcessKeyboard :: camera_keyboard where
  "example_ProcessKeyboard direction deltaTime c =
     (let velocity = MovementSpeed c * deltaTime in
      case direction of
        FORWARD \<Rightarrow> MoveForward velocity c
      | BACKWARD \<Rightarrow> MoveBackward velocity c
      | LEFT \<Rightarrow> MoveLeft velocity c
      | RIGHT \<Rightarrow> MoveRight velocity c
      | UP \<Rightarrow> MoveUp velocity c
      | DOWN \<Rightarrow> MoveDown velocity c)"

definition startup_this :: ViewManager where
  "startup_this = fst (ViewManager_ctor (Some 7) example_new_Camera example_this globals_init)"

definition startup_globals :: globals where
  "startup_globals = snd (ViewManager_ctor (Some 7) example_new_Camera example_this globals_init)"

section \<open>Notions used in the statements\<close>

text \<open>
  A key is held in a frame when it reads pressed. A call of \<^verbatim>\<open>KeyPressedOnce\<close>
  fires when the key reads pressed and its latch is clear; whatever it returns, it
  leaves the latch of the key set after a press, clear after a release and unchanged
  after any other value.
\<close>

definition held :: "key_reader \<Rightarrow> ptr \<Rightarrow> int \<Rightarrow> bool" where
  "held G w key = (G w key = GLFW_PRESS)"

definition latch_next :: "int \<Rightarrow> bool \<Rightarrow> bool" where
  "latch_next state latched =
     (if state = GLFW_PRESS then True else if state = GLFW_RELEASE then False else latched)"

definition fires :: "key_reader \<Rightarrow> ViewManager \<Rightarrow> int \<Rightarrow> bool" where
  "fires G s key = (held G (m_window s) key \<and> \<not> m_keyOnce s key)"

definition latched :: "key_reader \<Rightarrow> int \<Rightarrow> ViewManager \<Rightarrow> ViewManager" where
  "latched G key s = s\<lparr>m_keyOnce := (m_keyOnce s)(key := latch_next (G (m_window s) key) (m_keyOnce s key))\<rparr>"

definition ind :: "bool \<Rightarrow> real" where
  "ind b = (if b then 1 else 0)"

definition axis :: "bool \<Rightarrow> bool \<Rightarrow> real" where
  "axis pos neg = ind pos - ind neg"

definition cond :: "bool \<Rightarrow> ('a \<Rightarrow> 'a) \<Rightarrow> 'a \<Rightarrow> 'a" where
  "cond b f v = (if b then f v else v)"

definition translate :: "Camera \<Rightarrow> vec3 \<Rightarrow> Camera" where
  "translate c v = c\<lparr>Position := vadd (Position c) v\<rparr>"

definition wf_lights :: "ViewManager \<Rightarrow> bool" where
  "wf_lights s \<longleftrightarrow>
     length (m_pointLightPos s) = 4 \<and> length (m_pointLightOn s) = 4
   \<and> length (m_pointIntensity s) = 4
   \<and> 0 \<le> m_selectedPointLight s \<and> m_selectedPointLight s < 4"

definition selected_after :: "key_reader \<Rightarrow> ViewManager \<Rightarrow> int" where
  "selected_after G s =
     (if fires G s GLFW_KEY_4 then 3 else if fires G s GLFW_KEY_3 then 2
      else if fires G s GLFW_KEY_2 then 1 else if fires G s GLFW_KEY_1 then 0
      else m_selectedPointLight s)"

definition scale_after :: "key_reader \<Rightarrow> ViewManager \<Rightarrow> real" where
  "scale_after G s =
     cond (fires G s GLFW_KEY_X) (\<lambda>v. min 8.0 (v * 2.0))
       (cond (fires G s GLFW_KEY_Z) (\<lambda>v. max 0.25 (v * 0.5)) (m_moveSpeedScale s))"

definition edge_keys :: "int set" where
  "edge_keys = {GLFW_KEY_Z, GLFW_KEY_X, GLFW_KEY_1, GLFW_KEY_2, GLFW_KEY_3, GLFW_KEY_4,
                GLFW_KEY_L, GLFW_KEY_F, GLFW_KEY_T}"

text \<open>
  The clamps of the light parameters: every intensity between 0 and 3, the ambient
  boost between 0 and 0.3, and the selected light one of the four.
\<close>

definition light_clamps :: "ViewManager \<Rightarrow> bool" where
  "light_clamps s \<longleftrightarrow>
     (\<forall>i<4. 0 \<le> m_pointIntensity s ! i \<and> m_pointIntensity s ! i \<le> 3)
   \<and> 0 \<le> m_ambientBoost s \<and> m_ambientBoost s \<le> 0.3
   \<and> m_selectedPointLight s \<in> {0, 1, 2, 3}"

text \<open>Key states for the examples: one key pressed and every other key released.\<close>

definition press_only :: "int \<Rightarrow> key_reader" where
  "press_only key = (\<lambda>window k. if k = key then GLFW_PRESS else GLFW_RELEASE)"


text \<open>
  The camera after the six movement keys of \<^verbatim>\<open>ProcessKeyboardEvents\<close>: for each of
  W, S, A, D, Q and E in this order, if the key is held, the camera's
  \<^verbatim>\<open>ProcessKeyboard\<close> is applied with the key's direction and the delta-time.
\<close>

definition keyboard_moved :: "camera_keyboard \<Rightarrow> key_reader \<Rightarrow> ptr \<Rightarrow> real \<Rightarrow> Camera \<Rightarrow> Camera" where
  "keyboard_moved pk G w dt c =
     cond (held G w GLFW_KEY_E) (pk DOWN dt)
       (cond (held G w GLFW_KEY_Q) (pk UP dt)
         (cond (held G w GLFW_KEY_D) (pk RIGHT dt)
           (cond (held G w GLFW_KEY_A) (pk LEFT dt)
             (cond (held G w GLFW_KEY_S) (pk BACKWARD dt)
               (cond (held G w GLFW_KEY_W) (pk FORWARD dt) c)))))"

definition press_both :: "int \<Rightarrow> int \<Rightarrow> key_reader" where
  "press_both key1 key2 = (\<lambda>window k. if k = key1 \<or> k = key2 then GLFW_PRESS else GLFW_RELEASE)"

section \<open>Properties of the callbacks\<close>

lemma bind_r_Inr [simp]: "bind_r (Inr v) f = f v"
  by (simp add: bind_r_def)

lemma bind_r_Inl [simp]: "bind_r (Inl e) f = Inl e"
  by (simp add: bind_r_def)

lemma bind_r_eq_Inr: "bind_r m f = Inr r \<longleftrightarrow> (\<exists>v. m = Inr v \<and> f v = Inr r)"
  by (cases m) simp_all

subsection \<open>The narrowing to single precision\<close>

lemma float_round_0 [simp]: "float_round 0 = 0"
  by (simp add: float_round_def)


lemma round_even_of_int [simp]: "round_even (of_int n) = n"
  by (simp add: round_even_def)






lemma dispatch_all_append:
  "dispatch_all (es @ fs) g = bind_r (dispatch_all es g) (dispatch_all fs)"
proof (induction es arbitrary: g)
  case Nil
  show ?case by simp
next
  case (Cons e es)
  show ?case
  proof (cases "dispatch e g")
    case (Inl err)
    then show ?thesis by simp
  next
    case (Inr g1)
    then show ?thesis by (simp add: Cons.IH)
  qed
qed

lemma Scroll_Callback_zoom:
  assumes "g_pCamera g = Some c"
  shows "\<exists>c'. g_pCamera (Scroll_Callback xo yo g) = Some c'
           \<and> Zoom c' = min 90 (max 1 (Zoom c - yo))"
  using assms by (simp add: Scroll_Callback_def Let_def min_def max_def)

text \<open>
  Claim C7. Whatever events came before, a scroll event leaves the camera's
  field of view at the old value minus the scroll's y offset, clamped to the interval
  from 1 to 90; so the field of view is within that interval after every scroll event of
  every sequence.
\<close>

theorem Scroll_Callback_zoom_clamped:
  assumes "dispatch_all evs g = Inr g1" and "g_pCamera g1 = Some c1"
  shows "\<exists>g2 c2. dispatch_all (evs @ [Scroll xo yo]) g = Inr g2
           \<and> g_pCamera g2 = Some c2
           \<and> Zoom c2 = min 90 (max 1 (Zoom c1 - yo))
           \<and> 1 \<le> Zoom c2 \<and> Zoom c2 \<le> 90"
proof -
  from Scroll_Callback_zoom [OF assms(2), of xo yo]
  obtain c2 where c2: "g_pCamera (Scroll_Callback xo yo g1) = Some c2"
    and zoom: "Zoom c2 = min 90 (max 1 (Zoom c1 - yo))"
    by blast
  have run: "dispatch_all (evs @ [Scroll xo yo]) g = Inr (Scroll_Callback xo yo g1)"
    by (simp add: dispatch_all_append assms(1))
  have "1 \<le> Zoom c2" and "Zoom c2 \<le> 90"
    using zoom by (simp_all add: min_def max_def)
  with run c2 zoom show ?thesis by blast
qed

lemma startup_globals_camera: "g_pCamera startup_globals = Some startup_camera"
  by (simp add: startup_globals_def startup_camera_def ViewManager_ctor_def)

theorem Scroll_Callback_zoom_clamped_witness:
  "dispatch_all [] startup_globals = Inr startup_globals
   \<and> g_pCamera startup_globals = Some startup_camera
   \<and> (\<exists>g2 c2. dispatch_all ([] @ [Scroll 0 100]) startup_globals = Inr g2
           \<and> g_pCamera g2 = Some c2
           \<and> Zoom c2 = min 90 (max 1 (Zoom startup_camera - 100))
           \<and> 1 \<le> Zoom c2 \<and> Zoom c2 \<le> 90)"
proof -
  have h1: "dispatch_all [] startup_globals = Inr startup_globals"
    by simp
  from Scroll_Callback_zoom_clamped [OF h1 startup_globals_camera, of 0 100]
  show ?thesis
    using h1 startup_globals_camera by blast
qed

section \<open>The effect of one call of HandleInteractiveShortcuts\<close>

lemma run_steps_append: "run_steps (fs @ gs) s = bind_r (run_steps fs s) (run_steps gs)"
proof (induction fs arbitrary: s)
  case Nil
  show ?case by simp
next
  case (Cons f fs)
  show ?case by (cases "f s") (simp_all add: Cons.IH)
qed

lemma KeyPressedOnce_eq: "KeyPressedOnce G key s = (fires G s key, latched G key s)"
proof -
  have idem: "m_keyOnce s key \<Longrightarrow> s\<lparr>m_keyOnce := (m_keyOnce s)(key := True)\<rparr> = s"
    by (simp add: fun_upd_idem)
  show ?thesis
    by (auto simp: KeyPressedOnce_def fires_def held_def latched_def latch_next_def Let_def idem)
qed

lemma if_once_eq: "if_once G key body s = (if fires G s key then body (latched G key s) else Inr (latched G key s))"
  by (simp add: if_once_def KeyPressedOnce_eq)

lemma if_held_eq: "if_held G w key body s = (if held G w key then body s else Inr s)"
  by (simp add: if_held_def held_def)

lemma fires_latched [simp]: "key \<noteq> key' \<Longrightarrow> fires G (latched G key' s) key = fires G s key"
  by (simp add: fires_def latched_def)

lemma fires_update [simp]:
  "fires G (s\<lparr>m_moveSpeedScale := v1\<rparr>) key = fires G s key"
  "fires G (s\<lparr>window_title := v2\<rparr>) key = fires G s key"
  "fires G (s\<lparr>m_selectedPointLight := v3\<rparr>) key = fires G s key"
  "fires G (s\<lparr>m_dirLightOn := v4\<rparr>) key = fires G s key"
  "fires G (s\<lparr>m_flashlightOn := v5\<rparr>) key = fires G s key"
  "fires G (s\<lparr>m_pointLightOn := v6\<rparr>) key = fires G s key"
  "fires G (s\<lparr>m_pointIntensity := v7\<rparr>) key = fires G s key"
  by (simp_all add: fires_def)

lemma latched_fields [simp]:
  "m_moveSpeedScale (latched G key s) = m_moveSpeedScale s"
  "m_selectedPointLight (latched G key s) = m_selectedPointLight s"
  "m_pointLightOn (latched G key s) = m_pointLightOn s"
  "m_pointIntensity (latched G key s) = m_pointIntensity s"
  "m_dirLightOn (latched G key s) = m_dirLightOn s"
  "m_flashlightOn (latched G key s) = m_flashlightOn s"
  by (simp_all add: latched_def)

lemma speed_keys_eq:
  "speed_keys G s =
     Inr (s\<lparr>m_keyOnce := (m_keyOnce s)
               (GLFW_KEY_Z := latch_next (G (m_window s) GLFW_KEY_Z) (m_keyOnce s GLFW_KEY_Z),
                GLFW_KEY_X := latch_next (G (m_window s) GLFW_KEY_X) (m_keyOnce s GLFW_KEY_X)),
            m_moveSpeedScale :=
              (if fires G s GLFW_KEY_X
               then min 8.0 ((if fires G s GLFW_KEY_Z then max 0.25 (m_moveSpeedScale s * 0.5) else m_moveSpeedScale s) * 2.0)
               else (if fires G s GLFW_KEY_Z then max 0.25 (m_moveSpeedScale s * 0.5) else m_moveSpeedScale s)),
            window_title :=
              (if fires G s GLFW_KEY_X
               then (m_selectedPointLight s + 1, min 8.0 ((if fires G s GLFW_KEY_Z then max 0.25 (m_moveSpeedScale s * 0.5) else m_moveSpeedScale s) * 2.0))
               else if fires G s GLFW_KEY_Z then (m_selectedPointLight s + 1, max 0.25 (m_moveSpeedScale s * 0.5))
                  else window_title s)\<rparr>)"
  by (cases "fires G s GLFW_KEY_Z"; cases "fires G s GLFW_KEY_X";
      simp add: speed_keys_def if_once_eq SetWindowTitleWithSelection_def;
      simp add: latched_def)

lemma select_keys_eq:
  "select_keys G s =
     Inr (s\<lparr>m_keyOnce := (m_keyOnce s)
               (GLFW_KEY_1 := latch_next (G (m_window s) GLFW_KEY_1) (m_keyOnce s GLFW_KEY_1),
                GLFW_KEY_2 := latch_next (G (m_window s) GLFW_KEY_2) (m_keyOnce s GLFW_KEY_2),
                GLFW_KEY_3 := latch_next (G (m_window s) GLFW_KEY_3) (m_keyOnce s GLFW_KEY_3),
                GLFW_KEY_4 := latch_next (G (m_window s) GLFW_KEY_4) (m_keyOnce s GLFW_KEY_4)),
            m_selectedPointLight :=
              (if fires G s GLFW_KEY_4 then 3 else if fires G s GLFW_KEY_3 then 2
               else if fires G s GLFW_KEY_2 then 1 else if fires G s GLFW_KEY_1 then 0
               else m_selectedPointLight s),
            window_title :=
              (if fires G s GLFW_KEY_4 then (4, m_moveSpeedScale s) else if fires G s GLFW_KEY_3 then (3, m_moveSpeedScale s)
               else if fires G s GLFW_KEY_2 then (2, m_moveSpeedScale s) else if fires G s GLFW_KEY_1 then (1, m_moveSpeedScale s)
               else window_title s)\<rparr>)"
  by (cases "fires G s GLFW_KEY_1"; cases "fires G s GLFW_KEY_2";
      cases "fires G s GLFW_KEY_3"; cases "fires G s GLFW_KEY_4";
      simp add: select_keys_def if_once_eq SetWindowTitleWithSelection_def;
      simp add: latched_def)

lemma toggle_selected_eq:
  "0 \<le> m_selectedPointLight s \<Longrightarrow> m_selectedPointLight s < 4 \<Longrightarrow>
   toggle_selected s =
     Inr (s\<lparr>m_pointLightOn := (m_pointLightOn s)
            [nat (m_selectedPointLight s) := \<not> m_pointLightOn s ! nat (m_selectedPointLight s)]\<rparr>)"
  by (simp add: toggle_selected_def selected_index_def)

lemma toggle_keys_eq:
  assumes "0 \<le> m_selectedPointLight s" "m_selectedPointLight s < 4"
  shows "toggle_keys G s =
     Inr (s\<lparr>m_keyOnce := (m_keyOnce s)
               (GLFW_KEY_L := latch_next (G (m_window s) GLFW_KEY_L) (m_keyOnce s GLFW_KEY_L),
                GLFW_KEY_F := latch_next (G (m_window s) GLFW_KEY_F) (m_keyOnce s GLFW_KEY_F),
                GLFW_KEY_T := latch_next (G (m_window s) GLFW_KEY_T) (m_keyOnce s GLFW_KEY_T)),
            m_dirLightOn := (if fires G s GLFW_KEY_L then \<not> m_dirLightOn s else m_dirLightOn s),
            m_flashlightOn := (if fires G s GLFW_KEY_F then \<not> m_flashlightOn s else m_flashlightOn s),
            m_pointLightOn :=
              (if fires G s GLFW_KEY_T
               then (m_pointLightOn s)[nat (m_selectedPointLight s) := \<not> m_pointLightOn s ! nat (m_selectedPointLight s)]
               else m_pointLightOn s)\<rparr>)"
  using assms
  by (cases "fires G s GLFW_KEY_L"; cases "fires G s GLFW_KEY_F"; cases "fires G s GLFW_KEY_T";
      simp add: toggle_keys_def if_once_eq toggle_selected_eq;
      simp add: latched_def)

lemma vec3_eta [simp]: "\<lparr>x = x p, y = y p, z = z p\<rparr> = p"
  by simp

lemma translate_fields [simp]:
  "Front (translate c v) = Front c" "Right (translate c v) = Right c" "Up (translate c v) = Up c"
  "Position (translate c v) = vadd (Position c) v"
  by (simp_all add: translate_def)

lemma translate_translate [simp]: "translate (translate c u) v = translate c (vadd u v)"
  by (simp add: translate_def vadd_def algebra_simps)

lemma cond_Move:
  "cond b (MoveForward d) c = translate c (vscale (Front c) (ind b * d))"
  "cond b (MoveBackward d) c = translate c (vscale (Front c) (- ind b * d))"
  "cond b (MoveRight d) c = translate c (vscale (Right c) (ind b * d))"
  "cond b (MoveLeft d) c = translate c (vscale (Right c) (- ind b * d))"
  "cond b (MoveUp d) c = translate c (vscale (Up c) (ind b * d))"
  "cond b (MoveDown d) c = translate c (vscale (Up c) (- ind b * d))"
  by (cases b; simp add: cond_def ind_def translate_def MoveForward_def MoveBackward_def MoveLeft_def
        MoveRight_def MoveUp_def MoveDown_def vadd_def vsub_def vscale_def)+

lemma held_camera_step:
  "if_held G w key (\<lambda>s. Inr (s\<lparr>m_camera := mv (m_camera s)\<rparr>)) (s\<lparr>m_camera := c\<rparr>)
     = Inr (s\<lparr>m_camera := cond (held G w key) mv c\<rparr>)"
  by (simp add: if_held_eq cond_def)

lemma camera_keys_eq:
  "camera_keys G w speed s =
     Inr (s\<lparr>m_camera := translate (m_camera s)
            (vadd (vadd (vscale (Front (m_camera s)) (axis (held G w GLFW_KEY_W) (held G w GLFW_KEY_S) * speed))
                        (vscale (Right (m_camera s)) (axis (held G w GLFW_KEY_D) (held G w GLFW_KEY_A) * speed)))
                  (vscale (Up (m_camera s)) (axis (held G w GLFW_KEY_E) (held G w GLFW_KEY_Q) * speed)))\<rparr>)"
proof -
  have "camera_keys G w speed (s\<lparr>m_camera := m_camera s\<rparr>) =
     Inr (s\<lparr>m_camera := translate (m_camera s)
            (vadd (vadd (vscale (Front (m_camera s)) (axis (held G w GLFW_KEY_W) (held G w GLFW_KEY_S) * speed))
                        (vscale (Right (m_camera s)) (axis (held G w GLFW_KEY_D) (held G w GLFW_KEY_A) * speed)))
                  (vscale (Up (m_camera s)) (axis (held G w GLFW_KEY_E) (held G w GLFW_KEY_Q) * speed)))\<rparr>)"
    unfolding camera_keys_def run_steps.simps held_camera_step bind_r_Inr cond_Move translate_fields translate_translate
    by (simp add: vadd_def vscale_def axis_def algebra_simps)
  then show ?thesis by simp
qed

lemma cond_nudge:
  "cond b (\<lambda>p. p\<lparr>x := x p - d\<rparr>) p = p\<lparr>x := x p - ind b * d\<rparr>"
  "cond b (\<lambda>p. p\<lparr>x := x p + d\<rparr>) p = p\<lparr>x := x p + ind b * d\<rparr>"
  "cond b (\<lambda>p. p\<lparr>y := y p - d\<rparr>) p = p\<lparr>y := y p - ind b * d\<rparr>"
  "cond b (\<lambda>p. p\<lparr>y := y p + d\<rparr>) p = p\<lparr>y := y p + ind b * d\<rparr>"
  "cond b (\<lambda>p. p\<lparr>z := z p - d\<rparr>) p = p\<lparr>z := z p - ind b * d\<rparr>"
  "cond b (\<lambda>p. p\<lparr>z := z p + d\<rparr>) p = p\<lparr>z := z p + ind b * d\<rparr>"
  by (cases b; simp add: cond_def ind_def)+

lemma held_nudge_step:
  assumes "0 \<le> m_selectedPointLight s" "m_selectedPointLight s < 4" "length xs = 4"
  shows "if_held G w key (nudge_selected f) (s\<lparr>m_pointLightPos := xs[nat (m_selectedPointLight s) := p]\<rparr>)
     = Inr (s\<lparr>m_pointLightPos := xs[nat (m_selectedPointLight s) := cond (held G w key) f p]\<rparr>)"
  using assms by (simp add: if_held_eq cond_def nudge_selected_def selected_index_def)

lemma nudge_keys_eq:
  assumes "0 \<le> m_selectedPointLight s" "m_selectedPointLight s < 4" "length (m_pointLightPos s) = 4"
  shows "nudge_keys G w speed s =
     Inr (s\<lparr>m_pointLightPos := (m_pointLightPos s)
            [nat (m_selectedPointLight s) :=
               (m_pointLightPos s ! nat (m_selectedPointLight s))
                 \<lparr>x := x (m_pointLightPos s ! nat (m_selectedPointLight s))
                        + axis (held G w GLFW_KEY_RIGHT) (held G w GLFW_KEY_LEFT) * speed,
                  z := z (m_pointLightPos s ! nat (m_selectedPointLight s))
                        + axis (held G w GLFW_KEY_DOWN) (held G w GLFW_KEY_UP) * speed,
                  y := y (m_pointLightPos s ! nat (m_selectedPointLight s))
                        + axis (held G w GLFW_KEY_PAGE_UP) (held G w GLFW_KEY_PAGE_DOWN) * speed\<rparr>]\<rparr>)"
proof -
  let ?i = "nat (m_selectedPointLight s)"
  let ?xs = "m_pointLightPos s"
  have "nudge_keys G w speed (s\<lparr>m_pointLightPos := ?xs[?i := ?xs ! ?i]\<rparr>) =
     Inr (s\<lparr>m_pointLightPos := ?xs
            [?i := (?xs ! ?i)
                 \<lparr>x := x (?xs ! ?i) + axis (held G w GLFW_KEY_RIGHT) (held G w GLFW_KEY_LEFT) * speed,
                  z := z (?xs ! ?i) + axis (held G w GLFW_KEY_DOWN) (held G w GLFW_KEY_UP) * speed,
                  y := y (?xs ! ?i) + axis (held G w GLFW_KEY_PAGE_UP) (held G w GLFW_KEY_PAGE_DOWN) * speed\<rparr>]\<rparr>)"
    unfolding nudge_keys_def run_steps.simps held_nudge_step [OF assms] bind_r_Inr cond_nudge
    by (simp add: axis_def algebra_simps)
  then show ?thesis by simp
qed

lemma set_selected_intensity_eq:
  "0 \<le> m_selectedPointLight s \<Longrightarrow> m_selectedPointLight s < 4 \<Longrightarrow>
   set_selected_intensity f s =
     Inr (s\<lparr>m_pointIntensity := (m_pointIntensity s)
            [nat (m_selectedPointLight s) := f (m_pointIntensity s ! nat (m_selectedPointLight s))]\<rparr>)"
  by (simp add: set_selected_intensity_def selected_index_def)

lemma held_or_once_eq:
  "(if G w k1 = GLFW_PRESS then body s else if_once G k2 body s) =
   (if held G w k1 then body s
    else if fires G s k2 then body (latched G k2 s) else Inr (latched G k2 s))"
  by (simp add: held_def if_once_eq)

lemma intensity_keys_eq:
  assumes "0 \<le> m_selectedPointLight s" "m_selectedPointLight s < 4" "length (m_pointIntensity s) = 4"
  shows "intensity_keys G w s =
     Inr (s\<lparr>m_keyOnce :=
              (if held G w GLFW_KEY_KP_SUBTRACT
               then (if held G w GLFW_KEY_KP_ADD then m_keyOnce s
                     else (m_keyOnce s)(GLFW_KEY_EQUAL := latch_next (G (m_window s) GLFW_KEY_EQUAL) (m_keyOnce s GLFW_KEY_EQUAL)))
               else (if held G w GLFW_KEY_KP_ADD then m_keyOnce s
                     else (m_keyOnce s)(GLFW_KEY_EQUAL := latch_next (G (m_window s) GLFW_KEY_EQUAL) (m_keyOnce s GLFW_KEY_EQUAL)))
                    (GLFW_KEY_MINUS := latch_next (G (m_window s) GLFW_KEY_MINUS) (m_keyOnce s GLFW_KEY_MINUS))),
            m_pointIntensity := (m_pointIntensity s)
               [nat (m_selectedPointLight s) :=
                  cond (held G w GLFW_KEY_KP_SUBTRACT \<or> fires G s GLFW_KEY_MINUS) (\<lambda>v. max 0.0 (v - 0.05))
                    (cond (held G w GLFW_KEY_KP_ADD \<or> fires G s GLFW_KEY_EQUAL) (\<lambda>v. min 3.0 (v + 0.05))
                       (m_pointIntensity s ! nat (m_selectedPointLight s)))]\<rparr>)"
  using assms
  by (cases "held G w GLFW_KEY_KP_ADD"; cases "fires G s GLFW_KEY_EQUAL";
      cases "held G w GLFW_KEY_KP_SUBTRACT"; cases "fires G s GLFW_KEY_MINUS";
      simp add: intensity_keys_def held_or_once_eq set_selected_intensity_eq cond_def;
      simp add: latched_def)

lemma selected_after_range:
  "0 \<le> m_selectedPointLight s \<Longrightarrow> m_selectedPointLight s < 4 \<Longrightarrow>
   0 \<le> selected_after G s \<and> selected_after G s < 4"
  by (simp add: selected_after_def)

lemma ambient_keys_eq:
  "ambient_keys G w s =
     Inr (s\<lparr>m_ambientBoost :=
            cond (held G w GLFW_KEY_APOSTROPHE) (\<lambda>v. min 0.3 (v + 0.001))
              (cond (held G w GLFW_KEY_SEMICOLON) (\<lambda>v. max 0.0 (v - 0.001)) (m_ambientBoost s))\<rparr>)"
  by (cases "held G w GLFW_KEY_APOSTROPHE"; cases "held G w GLFW_KEY_SEMICOLON";
      simp add: ambient_keys_def if_held_eq cond_def)

lemma HIS_effect:
  assumes wf: "wf_lights s"
  shows "\<exists>s'. HandleInteractiveShortcuts G w s = Inr s'
    \<and> m_window s' = m_window s \<and> m_pWindow s' = m_pWindow s \<and> m_pShaderManager s' = m_pShaderManager s
    \<and> (\<forall>k\<in>edge_keys. m_keyOnce s' k = latch_next (G (m_window s) k) (m_keyOnce s k))
    \<and> m_camera s' = translate (m_camera s)
            (vadd (vadd (vscale (Front (m_camera s)) (axis (held G w GLFW_KEY_W) (held G w GLFW_KEY_S) * frame_speed G w s))
                        (vscale (Right (m_camera s)) (axis (held G w GLFW_KEY_D) (held G w GLFW_KEY_A) * frame_speed G w s)))
                  (vscale (Up (m_camera s)) (axis (held G w GLFW_KEY_E) (held G w GLFW_KEY_Q) * frame_speed G w s)))
    \<and> m_moveSpeedScale s' = scale_after G s
    \<and> m_selectedPointLight s' = selected_after G s
    \<and> m_pointLightPos s' = (m_pointLightPos s)
            [nat (selected_after G s) :=
               (m_pointLightPos s ! nat (selected_after G s))
                 \<lparr>x := x (m_pointLightPos s ! nat (selected_after G s))
                        + axis (held G w GLFW_KEY_RIGHT) (held G w GLFW_KEY_LEFT) * frame_speed G w s,
                  z := z (m_pointLightPos s ! nat (selected_after G s))
                        + axis (held G w GLFW_KEY_DOWN) (held G w GLFW_KEY_UP) * frame_speed G w s,
                  y := y (m_pointLightPos s ! nat (selected_after G s))
                        + axis (held G w GLFW_KEY_PAGE_UP) (held G w GLFW_KEY_PAGE_DOWN) * frame_speed G w s\<rparr>]
    \<and> m_dirLightOn s' = (if fires G s GLFW_KEY_L then \<not> m_dirLightOn s else m_dirLightOn s)
    \<and> m_flashlightOn s' = (if fires G s GLFW_KEY_F then \<not> m_flashlightOn s else m_flashlightOn s)
    \<and> m_pointLightOn s' =
          (if fires G s GLFW_KEY_T
           then (m_pointLightOn s)[nat (selected_after G s) := \<not> m_pointLightOn s ! nat (selected_after G s)]
           else m_pointLightOn s)
    \<and> m_pointIntensity s' = (m_pointIntensity s)
               [nat (selected_after G s) :=
                  cond (held G w GLFW_KEY_KP_SUBTRACT \<or> fires G s GLFW_KEY_MINUS) (\<lambda>v. max 0.0 (v - 0.05))
                    (cond (held G w GLFW_KEY_KP_ADD \<or> fires G s GLFW_KEY_EQUAL) (\<lambda>v. min 3.0 (v + 0.05))
                       (m_pointIntensity s ! nat (selected_after G s)))]
    \<and> m_ambientBoost s' =
          cond (held G w GLFW_KEY_APOSTROPHE) (\<lambda>v. min 0.3 (v + 0.001))
            (cond (held G w GLFW_KEY_SEMICOLON) (\<lambda>v. max 0.0 (v - 0.001)) (m_ambientBoost s))"
proof -
  define speed where "speed = frame_speed G w s"
  define s1 where "s1 = projr (camera_keys G w speed s)"
  define s2 where "s2 = projr (speed_keys G s1)"
  define s3 where "s3 = projr (select_keys G s2)"
  define s4 where "s4 = projr (nudge_keys G w speed s3)"
  define s5 where "s5 = projr (toggle_keys G s4)"
  define s6 where "s6 = projr (intensity_keys G w s5)"
  define s7 where "s7 = projr (ambient_keys G w s6)"
  note e1 = camera_keys_eq [of G w speed s]
  have r1: "camera_keys G w speed s = Inr s1"
    by (simp add: s1_def e1)
  have f1: "m_window s1 = m_window s" "m_keyOnce s1 = m_keyOnce s"
    "m_selectedPointLight s1 = m_selectedPointLight s" "m_moveSpeedScale s1 = m_moveSpeedScale s"
    "m_pointLightPos s1 = m_pointLightPos s" "m_pointLightOn s1 = m_pointLightOn s"
    "m_pointIntensity s1 = m_pointIntensity s" "m_dirLightOn s1 = m_dirLightOn s"
    "m_flashlightOn s1 = m_flashlightOn s" "m_ambientBoost s1 = m_ambientBoost s"
    "m_pWindow s1 = m_pWindow s" "m_pShaderManager s1 = m_pShaderManager s"
    by (simp_all add: s1_def e1)
  have c1: "m_camera s1 = translate (m_camera s)
            (vadd (vadd (vscale (Front (m_camera s)) (axis (held G w GLFW_KEY_W) (held G w GLFW_KEY_S) * speed))
                        (vscale (Right (m_camera s)) (axis (held G w GLFW_KEY_D) (held G w GLFW_KEY_A) * speed)))
                  (vscale (Up (m_camera s)) (axis (held G w GLFW_KEY_E) (held G w GLFW_KEY_Q) * speed)))"
    by (simp add: s1_def e1)
  have fires1: "fires G s1 k = fires G s k" for k
    by (simp add: fires_def f1)
  note e2 = speed_keys_eq [of G s1]
  have r2: "speed_keys G s1 = Inr s2"
    by (simp add: s2_def e2)
  have f2: "m_window s2 = m_window s"
    "m_selectedPointLight s2 = m_selectedPointLight s"
    "m_pointLightPos s2 = m_pointLightPos s" "m_pointLightOn s2 = m_pointLightOn s"
    "m_pointIntensity s2 = m_pointIntensity s" "m_dirLightOn s2 = m_dirLightOn s"
    "m_flashlightOn s2 = m_flashlightOn s" "m_ambientBoost s2 = m_ambientBoost s"
    "m_pWindow s2 = m_pWindow s" "m_pShaderManager s2 = m_pShaderManager s"
    "m_camera s2 = m_camera s1"
    by (simp_all add: s2_def e2 f1)
  have k2: "m_keyOnce s2 = (m_keyOnce s)
               (GLFW_KEY_Z := latch_next (G (m_window s) GLFW_KEY_Z) (m_keyOnce s GLFW_KEY_Z),
                GLFW_KEY_X := latch_next (G (m_window s) GLFW_KEY_X) (m_keyOnce s GLFW_KEY_X))"
    by (simp add: s2_def e2 f1)
  have v2: "m_moveSpeedScale s2 = scale_after G s"
    by (simp add: s2_def e2 f1 fires1 scale_after_def cond_def)
  have fires2: "fires G s2 k = fires G s k" if "k \<noteq> GLFW_KEY_Z" "k \<noteq> GLFW_KEY_X" for k
    using that by (simp add: fires_def f2 k2)
  note e3 = select_keys_eq [of G s2]
  have r3: "select_keys G s2 = Inr s3"
    by (simp add: s3_def e3)
  have f3: "m_window s3 = m_window s"
    "m_pointLightPos s3 = m_pointLightPos s" "m_pointLightOn s3 = m_pointLightOn s"
    "m_pointIntensity s3 = m_pointIntensity s" "m_dirLightOn s3 = m_dirLightOn s"
    "m_flashlightOn s3 = m_flashlightOn s" "m_ambientBoost s3 = m_ambientBoost s"
    "m_pWindow s3 = m_pWindow s" "m_pShaderManager s3 = m_pShaderManager s"
    "m_camera s3 = m_camera s1" "m_moveSpeedScale s3 = scale_after G s"
    by (simp_all add: s3_def e3 f2 v2)
  have k3: "m_keyOnce s3 = (m_keyOnce s2)
               (GLFW_KEY_1 := latch_next (G (m_window s) GLFW_KEY_1) (m_keyOnce s GLFW_KEY_1),
                GLFW_KEY_2 := latch_next (G (m_window s) GLFW_KEY_2) (m_keyOnce s GLFW_KEY_2),
                GLFW_KEY_3 := latch_next (G (m_window s) GLFW_KEY_3) (m_keyOnce s GLFW_KEY_3),
                GLFW_KEY_4 := latch_next (G (m_window s) GLFW_KEY_4) (m_keyOnce s GLFW_KEY_4))"
    by (simp add: s3_def e3 f2 k2)
  have sel3: "m_selectedPointLight s3 = selected_after G s"
    by (simp add: s3_def e3 f2 fires2 selected_after_def)
  have range: "0 \<le> selected_after G s" "selected_after G s < 4"
    using wf selected_after_range [of s G] by (simp_all add: wf_lights_def)
  have len: "length (m_pointLightPos s) = 4" "length (m_pointLightOn s) = 4"
    "length (m_pointIntensity s) = 4"
    using wf by (simp_all add: wf_lights_def)
  have fires3: "fires G s3 k = fires G s k"
    if "k \<notin> {GLFW_KEY_Z, GLFW_KEY_X, GLFW_KEY_1, GLFW_KEY_2, GLFW_KEY_3, GLFW_KEY_4}" for k
    using that by (simp add: fires_def f3 k3 k2)
  have e4: "nudge_keys G w speed s3 =
     Inr (s3\<lparr>m_pointLightPos := (m_pointLightPos s3)
            [nat (m_selectedPointLight s3) :=
               (m_pointLightPos s3 ! nat (m_selectedPointLight s3))
                 \<lparr>x := x (m_pointLightPos s3 ! nat (m_selectedPointLight s3))
                        + axis (held G w GLFW_KEY_RIGHT) (held G w GLFW_KEY_LEFT) * speed,
                  z := z (m_pointLightPos s3 ! nat (m_selectedPointLight s3))
                        + axis (held G w GLFW_KEY_DOWN) (held G w GLFW_KEY_UP) * speed,
                  y := y (m_pointLightPos s3 ! nat (m_selectedPointLight s3))
                        + axis (held G w GLFW_KEY_PAGE_UP) (held G w GLFW_KEY_PAGE_DOWN) * speed\<rparr>]\<rparr>)"
    by (rule nudge_keys_eq) (simp_all add: sel3 range f3 len)
  have r4: "nudge_keys G w speed s3 = Inr s4"
    by (simp add: s4_def e4)
  have f4: "m_window s4 = m_window s" "m_keyOnce s4 = m_keyOnce s3"
    "m_pointLightOn s4 = m_pointLightOn s"
    "m_pointIntensity s4 = m_pointIntensity s" "m_dirLightOn s4 = m_dirLightOn s"
    "m_flashlightOn s4 = m_flashlightOn s" "m_ambientBoost s4 = m_ambientBoost s"
    "m_pWindow s4 = m_pWindow s" "m_pShaderManager s4 = m_pShaderManager s"
    "m_camera s4 = m_camera s1" "m_moveSpeedScale s4 = scale_after G s"
    "m_selectedPointLight s4 = selected_after G s"
    by (simp_all add: s4_def e4 f3 sel3)
  have p4: "m_pointLightPos s4 = (m_pointLightPos s)
            [nat (selected_after G s) :=
               (m_pointLightPos s ! nat (selected_after G s))
                 \<lparr>x := x (m_pointLightPos s ! nat (selected_after G s))
                        + axis (held G w GLFW_KEY_RIGHT) (held G w GLFW_KEY_LEFT) * speed,
                  z := z (m_pointLightPos s ! nat (selected_after G s))
                        + axis (held G w GLFW_KEY_DOWN) (held G w GLFW_KEY_UP) * speed,
                  y := y (m_pointLightPos s ! nat (selected_after G s))
                        + axis (held G w GLFW_KEY_PAGE_UP) (held G w GLFW_KEY_PAGE_DOWN) * speed\<rparr>]"
    by (simp add: s4_def e4 f3 sel3)
  have fires4: "fires G s4 k = fires G s k"
    if "k \<notin> {GLFW_KEY_Z, GLFW_KEY_X, GLFW_KEY_1, GLFW_KEY_2, GLFW_KEY_3, GLFW_KEY_4}" for k
    using that fires3 [of k] by (simp add: fires_def f4 f3)
  have e5: "toggle_keys G s4 =
     Inr (s4\<lparr>m_keyOnce := (m_keyOnce s4)
               (GLFW_KEY_L := latch_next (G (m_window s4) GLFW_KEY_L) (m_keyOnce s4 GLFW_KEY_L),
                GLFW_KEY_F := latch_next (G (m_window s4) GLFW_KEY_F) (m_keyOnce s4 GLFW_KEY_F),
                GLFW_KEY_T := latch_next (G (m_window s4) GLFW_KEY_T) (m_keyOnce s4 GLFW_KEY_T)),
            m_dirLightOn := (if fires G s4 GLFW_KEY_L then \<not> m_dirLightOn s4 else m_dirLightOn s4),
            m_flashlightOn := (if fires G s4 GLFW_KEY_F then \<not> m_flashlightOn s4 else m_flashlightOn s4),
            m_pointLightOn :=
              (if fires G s4 GLFW_KEY_T
               then (m_pointLightOn s4)[nat (m_selectedPointLight s4) := \<not> m_pointLightOn s4 ! nat (m_selectedPointLight s4)]
               else m_pointLightOn s4)\<rparr>)"
    by (rule toggle_keys_eq) (simp_all add: f4 range)
  have r5: "toggle_keys G s4 = Inr s5"
    by (simp add: s5_def e5)
  have f5: "m_window s5 = m_window s"
    "m_pointIntensity s5 = m_pointIntensity s" "m_ambientBoost s5 = m_ambientBoost s"
    "m_pWindow s5 = m_pWindow s" "m_pShaderManager s5 = m_pShaderManager s"
    "m_camera s5 = m_camera s1" "m_moveSpeedScale s5 = scale_after G s"
    "m_selectedPointLight s5 = selected_after G s" "m_pointLightPos s5 = m_pointLightPos s4"
    by (simp_all add: s5_def e5 f4)
  have k5: "m_keyOnce s5 = (m_keyOnce s3)
               (GLFW_KEY_L := latch_next (G (m_window s) GLFW_KEY_L) (m_keyOnce s GLFW_KEY_L),
                GLFW_KEY_F := latch_next (G (m_window s) GLFW_KEY_F) (m_keyOnce s GLFW_KEY_F),
                GLFW_KEY_T := latch_next (G (m_window s) GLFW_KEY_T) (m_keyOnce s GLFW_KEY_T))"
    by (simp add: s5_def e5 f4 k3 k2)
  have t5: "m_dirLightOn s5 = (if fires G s GLFW_KEY_L then \<not> m_dirLightOn s else m_dirLightOn s)"
    "m_flashlightOn s5 = (if fires G s GLFW_KEY_F then \<not> m_flashlightOn s else m_flashlightOn s)"
    "m_pointLightOn s5 =
          (if fires G s GLFW_KEY_T
           then (m_pointLightOn s)[nat (selected_after G s) := \<not> m_pointLightOn s ! nat (selected_after G s)]
           else m_pointLightOn s)"
    by (simp_all add: s5_def e5 f4 fires4)
  have fires5: "fires G s5 k = fires G s k"
    if "k \<in> {GLFW_KEY_EQUAL, GLFW_KEY_MINUS}" for k
    using that by (auto simp add: fires_def f5 k5 k3 k2)
  have e6: "intensity_keys G w s5 =
     Inr (s5\<lparr>m_keyOnce :=
              (if held G w GLFW_KEY_KP_SUBTRACT
               then (if held G w GLFW_KEY_KP_ADD then m_keyOnce s5
                     else (m_keyOnce s5)(GLFW_KEY_EQUAL := latch_next (G (m_window s5) GLFW_KEY_EQUAL) (m_keyOnce s5 GLFW_KEY_EQUAL)))
               else (if held G w GLFW_KEY_KP_ADD then m_keyOnce s5
                     else (m_keyOnce s5)(GLFW_KEY_EQUAL := latch_next (G (m_window s5) GLFW_KEY_EQUAL) (m_keyOnce s5 GLFW_KEY_EQUAL)))
                    (GLFW_KEY_MINUS := latch_next (G (m_window s5) GLFW_KEY_MINUS) (m_keyOnce s5 GLFW_KEY_MINUS))),
            m_pointIntensity := (m_pointIntensity s5)
               [nat (m_selectedPointLight s5) :=
                  cond (held G w GLFW_KEY_KP_SUBTRACT \<or> fires G s5 GLFW_KEY_MINUS) (\<lambda>v. max 0.0 (v - 0.05))
                    (cond (held G w GLFW_KEY_KP_ADD \<or> fires G s5 GLFW_KEY_EQUAL) (\<lambda>v. min 3.0 (v + 0.05))
                       (m_pointIntensity s5 ! nat (m_selectedPointLight s5)))]\<rparr>)"
    by (rule intensity_keys_eq) (simp_all add: f5 range len)
  have r6: "intensity_keys G w s5 = Inr s6"
    by (simp add: s6_def e6)
  have f6: "m_window s6 = m_window s" "m_ambientBoost s6 = m_ambientBoost s"
    "m_pWindow s6 = m_pWindow s" "m_pShaderManager s6 = m_pShaderManager s"
    "m_camera s6 = m_camera s1" "m_moveSpeedScale s6 = scale_after G s"
    "m_selectedPointLight s6 = selected_after G s" "m_pointLightPos s6 = m_pointLightPos s4"
    "m_dirLightOn s6 = m_dirLightOn s5" "m_flashlightOn s6 = m_flashlightOn s5"
    "m_pointLightOn s6 = m_pointLightOn s5"
    by (simp_all add: s6_def e6 f5)
  have k6: "m_keyOnce s6 k = m_keyOnce s5 k" if "k \<in> edge_keys" for k
    using that by (auto simp add: s6_def e6 edge_keys_def)
  have i6: "m_pointIntensity s6 = (m_pointIntensity s)
               [nat (selected_after G s) :=
                  cond (held G w GLFW_KEY_KP_SUBTRACT \<or> fires G s GLFW_KEY_MINUS) (\<lambda>v. max 0.0 (v - 0.05))
                    (cond (held G w GLFW_KEY_KP_ADD \<or> fires G s GLFW_KEY_EQUAL) (\<lambda>v. min 3.0 (v + 0.05))
                       (m_pointIntensity s ! nat (selected_after G s)))]"
    by (simp add: s6_def e6 f5 fires5)
  note e7 = ambient_keys_eq [of G w s6]
  have r7: "ambient_keys G w s6 = Inr s7"
    by (simp add: s7_def e7)
  have f7: "m_window s7 = m_window s" "m_keyOnce s7 = m_keyOnce s6"
    "m_pWindow s7 = m_pWindow s" "m_pShaderManager s7 = m_pShaderManager s"
    "m_camera s7 = m_camera s1" "m_moveSpeedScale s7 = scale_after G s"
    "m_selectedPointLight s7 = selected_after G s" "m_pointLightPos s7 = m_pointLightPos s4"
    "m_dirLightOn s7 = m_dirLightOn s5" "m_flashlightOn s7 = m_flashlightOn s5"
    "m_pointLightOn s7 = m_pointLightOn s5" "m_pointIntensity s7 = m_pointIntensity s6"
    by (simp_all add: s7_def e7 f6)
  have a7: "m_ambientBoost s7 =
          cond (held G w GLFW_KEY_APOSTROPHE) (\<lambda>v. min 0.3 (v + 0.001))
            (cond (held G w GLFW_KEY_SEMICOLON) (\<lambda>v. max 0.0 (v - 0.001)) (m_ambientBoost s))"
    by (simp add: s7_def e7 f6 cond_def)
  have run: "HandleInteractiveShortcuts G w s = Inr s7"
    by (simp add: HandleInteractiveShortcuts_def speed_def [symmetric] r1 r2 r3 r4 r5 r6 r7)
  have latch: "\<forall>k\<in>edge_keys. m_keyOnce s7 k = latch_next (G (m_window s) k) (m_keyOnce s k)"
  proof
    fix k assume k: "k \<in> edge_keys"
    have "m_keyOnce s7 k = m_keyOnce s5 k"
      using k6 [OF k] by (simp add: f7)
    also have "\<dots> = latch_next (G (m_window s) k) (m_keyOnce s k)"
      using k by (auto simp add: edge_keys_def k5 k3 k2)
    finally show "m_keyOnce s7 k = latch_next (G (m_window s) k) (m_keyOnce s k)" .
  qed
  show ?thesis
    using run latch f7 c1 p4 t5 i6 a7 by (simp add: speed_def)
qed

section \<open>The light parameters and the speed scale\<close>

lemma HIS_wf_lights:
  assumes "wf_lights s" and "HandleInteractiveShortcuts G w s = Inr s'"
  shows "wf_lights s'"
proof -
  from HIS_effect [OF assms(1), of G w] assms(2)
  have "m_selectedPointLight s' = selected_after G s"
    and "length (m_pointLightPos s') = length (m_pointLightPos s)"
    and "length (m_pointLightOn s') = length (m_pointLightOn s)"
    and "length (m_pointIntensity s') = length (m_pointIntensity s)"
    by auto
  with assms(1) selected_after_range [of s G] show ?thesis
    by (simp add: wf_lights_def)
qed

lemma HIS_total:
  assumes "wf_lights s"
  shows "\<exists>s'. HandleInteractiveShortcuts G w s = Inr s' \<and> wf_lights s'"
  using HIS_effect [OF assms, of G w] HIS_wf_lights [OF assms] by blast

lemma clamp_intensity:
  "0 \<le> v \<Longrightarrow> v \<le> 3 \<Longrightarrow>
   0 \<le> cond b (\<lambda>v. max 0.0 (v - 0.05)) (cond c (\<lambda>v. min 3.0 (v + 0.05)) v)
   \<and> cond b (\<lambda>v. max 0.0 (v - 0.05)) (cond c (\<lambda>v. min 3.0 (v + 0.05)) v) \<le> (3::real)"
  by (cases b; cases c; simp add: cond_def)

lemma clamp_ambient:
  "0 \<le> v \<Longrightarrow> v \<le> 0.3 \<Longrightarrow>
   0 \<le> cond b (\<lambda>v. min 0.3 (v + 0.001)) (cond c (\<lambda>v. max 0.0 (v - 0.001)) v)
   \<and> cond b (\<lambda>v. min 0.3 (v + 0.001)) (cond c (\<lambda>v. max 0.0 (v - 0.001)) v) \<le> (0.3::real)"
  by (cases b; cases c; simp add: cond_def min_def max_def)

lemma HIS_light_clamps:
  assumes wf: "wf_lights s" and cl: "light_clamps s"
    and run: "HandleInteractiveShortcuts G w s = Inr s'"
  shows "light_clamps s'"
proof -
  from HIS_effect [OF wf, of G w] run
  have sel: "m_selectedPointLight s' = selected_after G s"
    and int: "m_pointIntensity s' = (m_pointIntensity s)
               [nat (selected_after G s) :=
                  cond (held G w GLFW_KEY_KP_SUBTRACT \<or> fires G s GLFW_KEY_MINUS) (\<lambda>v. max 0.0 (v - 0.05))
                    (cond (held G w GLFW_KEY_KP_ADD \<or> fires G s GLFW_KEY_EQUAL) (\<lambda>v. min 3.0 (v + 0.05))
                       (m_pointIntensity s ! nat (selected_after G s)))]"
    and amb: "m_ambientBoost s' =
          cond (held G w GLFW_KEY_APOSTROPHE) (\<lambda>v. min 0.3 (v + 0.001))
            (cond (held G w GLFW_KEY_SEMICOLON) (\<lambda>v. max 0.0 (v - 0.001)) (m_ambientBoost s))"
    by auto
  have range: "0 \<le> selected_after G s" "selected_after G s < 4"
    using wf selected_after_range [of s G] by (simp_all add: wf_lights_def)
  have len: "length (m_pointIntensity s) = 4"
    using wf by (simp add: wf_lights_def)
  have old: "0 \<le> m_pointIntensity s ! i \<and> m_pointIntensity s ! i \<le> 3" if "i < 4" for i
    using cl that by (simp add: light_clamps_def)
  have "0 \<le> m_pointIntensity s' ! i \<and> m_pointIntensity s' ! i \<le> 3" if "i < 4" for i
  proof (cases "i = nat (selected_after G s)")
    case True
    then show ?thesis
      using that len old [OF that] clamp_intensity [of "m_pointIntensity s ! i"]
      by (simp add: int)
  next
    case False
    then show ?thesis
      using that len old [OF that] by (simp add: int)
  qed
  moreover have "0 \<le> m_ambientBoost s' \<and> m_ambientBoost s' \<le> 0.3"
    using cl clamp_ambient [of "m_ambientBoost s"] by (simp add: amb light_clamps_def)
  moreover have "m_selectedPointLight s' \<in> {0, 1, 2, 3}"
    using range sel by auto
  ultimately show ?thesis
    by (simp add: light_clamps_def)
qed

lemma example_this_wf: "wf_lights example_this"
  by (simp add: wf_lights_def example_this_def)

lemma all_less_4: "(\<forall>i<4. P i) \<longleftrightarrow> P 0 \<and> P 1 \<and> P 2 \<and> P (3::nat)"
proof -
  have "i < 4 \<longleftrightarrow> i = 0 \<or> i = 1 \<or> i = 2 \<or> i = 3" for i :: nat
    by arith
  then show ?thesis by auto
qed

text \<open>
  Claim C3. Starting from light arrays of four elements and a state within the
  clamps, any number of calls of \<^verbatim>\<open>HandleInteractiveShortcuts\<close>, whatever the keys
  read in each frame, runs without an error and ends within the clamps: every
  intensity between 0 and 3, the ambient boost between 0 and 0.3, the selected light
  between 0 and 3.
\<close>

theorem light_parameters_stay_clamped:
  assumes "wf_lights s" and "light_clamps s"
  shows "\<exists>s'. HandleInteractiveShortcuts_frames ks w s = Inr s' \<and> wf_lights s' \<and> light_clamps s'"
  using assms
proof (induction ks arbitrary: s)
  case Nil
  then show ?case by simp
next
  case (Cons k ks)
  from HIS_total [OF Cons.prems(1), of k w]
  obtain s1 where s1: "HandleInteractiveShortcuts k w s = Inr s1" and wf1: "wf_lights s1"
    by blast
  have "light_clamps s1"
    using HIS_light_clamps [OF Cons.prems s1] .
  from Cons.IH [OF wf1 this] s1 show ?case
    by simp
qed

theorem light_parameters_stay_clamped_witness:
  "wf_lights example_this \<and> light_clamps example_this
   \<and> (\<exists>s'. HandleInteractiveShortcuts_frames
               [press_only GLFW_KEY_KP_ADD, press_only GLFW_KEY_4] (Some 1) example_this = Inr s'
           \<and> wf_lights s' \<and> light_clamps s')"
proof -
  have h: "light_clamps example_this"
    by (simp add: light_clamps_def example_this_def all_less_4)
  from light_parameters_stay_clamped [OF example_this_wf h] example_this_wf h
  show ?thesis by blast
qed

lemma HIS_frames_scale:
  assumes "wf_lights s" and "0.25 \<le> m_moveSpeedScale s" and "m_moveSpeedScale s \<le> 8"
  shows "\<exists>s'. HandleInteractiveShortcuts_frames ks w s = Inr s'
           \<and> 0.25 \<le> m_moveSpeedScale s' \<and> m_moveSpeedScale s' \<le> 8"
  using assms
proof (induction ks arbitrary: s)
  case Nil
  then show ?case by simp
next
  case (Cons k ks)
  from HIS_effect [OF Cons.prems(1), of k w]
  obtain s1 where s1: "HandleInteractiveShortcuts k w s = Inr s1"
    and v1: "m_moveSpeedScale s1 = scale_after k s"
    by blast
  have wf1: "wf_lights s1"
    using HIS_wf_lights [OF Cons.prems(1) s1] .
  have "0.25 \<le> m_moveSpeedScale s1 \<and> m_moveSpeedScale s1 \<le> 8"
    using Cons.prems(2,3)
    by (cases "fires k s GLFW_KEY_X"; cases "fires k s GLFW_KEY_Z";
        simp add: v1 scale_after_def cond_def)
  with Cons.IH [OF wf1] s1 show ?case
    by simp
qed

lemma HIS_double_then_halve:
  assumes wf: "wf_lights s" and one: "m_moveSpeedScale s = 1"
    and clear: "\<not> m_keyOnce s GLFW_KEY_X"
    and x1: "kx (m_window s) GLFW_KEY_X = GLFW_PRESS"
    and z1: "kx (m_window s) GLFW_KEY_Z = GLFW_RELEASE"
    and z2: "kz (m_window s) GLFW_KEY_Z = GLFW_PRESS"
  shows "\<exists>s1 s2. HandleInteractiveShortcuts kx w s = Inr s1 \<and> m_moveSpeedScale s1 = 2
           \<and> HandleInteractiveShortcuts kz w s1 = Inr s2 \<and> m_moveSpeedScale s2 = 1"
proof -
  from HIS_effect [OF wf, of kx w]
  obtain s1 where s1: "HandleInteractiveShortcuts kx w s = Inr s1"
    and win1: "m_window s1 = m_window s"
    and latch1: "\<forall>k\<in>edge_keys. m_keyOnce s1 k = latch_next (kx (m_window s) k) (m_keyOnce s k)"
    and v1: "m_moveSpeedScale s1 = scale_after kx s"
    by blast
  have wf1: "wf_lights s1"
    using HIS_wf_lights [OF wf s1] .
  have two: "m_moveSpeedScale s1 = 2"
    using one clear x1 z1 by (simp add: v1 scale_after_def cond_def fires_def held_def)
  have lx: "m_keyOnce s1 GLFW_KEY_X" and lz: "\<not> m_keyOnce s1 GLFW_KEY_Z"
    using latch1 x1 z1 by (simp_all add: edge_keys_def latch_next_def)
  from HIS_effect [OF wf1, of kz w]
  obtain s2 where s2: "HandleInteractiveShortcuts kz w s1 = Inr s2"
    and v2: "m_moveSpeedScale s2 = scale_after kz s1"
    by blast
  have "m_moveSpeedScale s2 = 1"
    using two lx lz z2 by (simp add: v2 scale_after_def cond_def fires_def held_def win1)
  with s1 two s2 show ?thesis by blast
qed

text \<open>
  Claim C4. From a speed scale between 0.25 and 8, any number of frames, whatever
  keys they read, leaves the scale between 0.25 and 8: in each frame a firing Z sets it
  to the larger of 0.25 and half its value, and a firing X then to the smaller of 8 and
  twice its value. From a scale of 1, a frame in which X fires and Z is released
  gives 2, and a following frame in which Z is pressed gives exactly 1.
\<close>

theorem speed_scale_stays_in_range:
  assumes "wf_lights s" and "0.25 \<le> m_moveSpeedScale s" and "m_moveSpeedScale s \<le> 8"
  shows "(\<exists>s'. HandleInteractiveShortcuts_frames ks w s = Inr s'
            \<and> 0.25 \<le> m_moveSpeedScale s' \<and> m_moveSpeedScale s' \<le> 8)
       \<and> (\<exists>s1. HandleInteractiveShortcuts k w s = Inr s1
            \<and> m_moveSpeedScale s1 =
                 (if fires k s GLFW_KEY_X
                  then min 8.0 ((if fires k s GLFW_KEY_Z then max 0.25 (m_moveSpeedScale s * 0.5)
                                 else m_moveSpeedScale s) * 2.0)
                  else (if fires k s GLFW_KEY_Z then max 0.25 (m_moveSpeedScale s * 0.5)
                        else m_moveSpeedScale s)))
       \<and> (m_moveSpeedScale s = 1 \<and> \<not> m_keyOnce s GLFW_KEY_X
            \<and> kx (m_window s) GLFW_KEY_X = GLFW_PRESS
            \<and> kx (m_window s) GLFW_KEY_Z = GLFW_RELEASE
            \<and> kz (m_window s) GLFW_KEY_Z = GLFW_PRESS
          \<longrightarrow> (\<exists>s1 s2. HandleInteractiveShortcuts kx w s = Inr s1 \<and> m_moveSpeedScale s1 = 2
                 \<and> HandleInteractiveShortcuts kz w s1 = Inr s2 \<and> m_moveSpeedScale s2 = 1))"
proof (intro conjI impI)
  show "\<exists>s'. HandleInteractiveShortcuts_frames ks w s = Inr s'
            \<and> 0.25 \<le> m_moveSpeedScale s' \<and> m_moveSpeedScale s' \<le> 8"
    using HIS_frames_scale [OF assms] .
next
  from HIS_effect [OF assms(1), of k w]
  obtain s1 where "HandleInteractiveShortcuts k w s = Inr s1"
    and "m_moveSpeedScale s1 = scale_after k s"
    by blast
  then show "\<exists>s1. HandleInteractiveShortcuts k w s = Inr s1
            \<and> m_moveSpeedScale s1 =
                 (if fires k s GLFW_KEY_X
                  then min 8.0 ((if fires k s GLFW_KEY_Z then max 0.25 (m_moveSpeedScale s * 0.5)
                                 else m_moveSpeedScale s) * 2.0)
                  else (if fires k s GLFW_KEY_Z then max 0.25 (m_moveSpeedScale s * 0.5)
                        else m_moveSpeedScale s))"
    by (simp add: scale_after_def cond_def)
next
  assume "m_moveSpeedScale s = 1 \<and> \<not> m_keyOnce s GLFW_KEY_X
            \<and> kx (m_window s) GLFW_KEY_X = GLFW_PRESS
            \<and> kx (m_window s) GLFW_KEY_Z = GLFW_RELEASE
            \<and> kz (m_window s) GLFW_KEY_Z = GLFW_PRESS"
  then show "\<exists>s1 s2. HandleInteractiveShortcuts kx w s = Inr s1 \<and> m_moveSpeedScale s1 = 2
                 \<and> HandleInteractiveShortcuts kz w s1 = Inr s2 \<and> m_moveSpeedScale s2 = 1"
    using HIS_double_then_halve [OF assms(1), of kx kz w] by blast
qed

theorem speed_scale_stays_in_range_witness:
  "wf_lights example_this \<and> 0.25 \<le> m_moveSpeedScale example_this
   \<and> m_moveSpeedScale example_this \<le> 8
   \<and> m_moveSpeedScale example_this = 1 \<and> \<not> m_keyOnce example_this GLFW_KEY_X
   \<and> press_only GLFW_KEY_X (m_window example_this) GLFW_KEY_X = GLFW_PRESS
   \<and> press_only GLFW_KEY_X (m_window example_this) GLFW_KEY_Z = GLFW_RELEASE
   \<and> press_only GLFW_KEY_Z (m_window example_this) GLFW_KEY_Z = GLFW_PRESS
   \<and> (\<exists>s'. HandleInteractiveShortcuts_frames
               [press_only GLFW_KEY_X, press_only GLFW_KEY_X] (Some 1) example_this = Inr s'
            \<and> 0.25 \<le> m_moveSpeedScale s' \<and> m_moveSpeedScale s' \<le> 8)
   \<and> (\<exists>s1 s2. HandleInteractiveShortcuts (press_only GLFW_KEY_X) (Some 1) example_this = Inr s1
            \<and> m_moveSpeedScale s1 = 2
            \<and> HandleInteractiveShortcuts (press_only GLFW_KEY_Z) (Some 1) s1 = Inr s2
            \<and> m_moveSpeedScale s2 = 1)"
proof -
  have h: "0.25 \<le> m_moveSpeedScale example_this" "m_moveSpeedScale example_this \<le> 8"
    by (simp_all add: example_this_def)
  have p: "m_moveSpeedScale example_this = 1 \<and> \<not> m_keyOnce example_this GLFW_KEY_X
   \<and> press_only GLFW_KEY_X (m_window example_this) GLFW_KEY_X = GLFW_PRESS
   \<and> press_only GLFW_KEY_X (m_window example_this) GLFW_KEY_Z = GLFW_RELEASE
   \<and> press_only GLFW_KEY_Z (m_window example_this) GLFW_KEY_Z = GLFW_PRESS"
    by (simp add: example_this_def press_only_def)
  from speed_scale_stays_in_range [OF example_this_wf h,
      of "[press_only GLFW_KEY_X, press_only GLFW_KEY_X]" "Some 1" "press_only GLFW_KEY_X"
         "press_only GLFW_KEY_X" "press_only GLFW_KEY_Z"] p example_this_wf h
  show ?thesis by blast
qed

text \<open>
  Claim C8. In a frame where key 3 fires (and key 4 is not pressed) the selection
  becomes light 2 and no light is switched; in the next frame, where T is pressed after
  having been released and none of the keys 1, 2 and 4 is pressed, the enabled flag of
  light 2 is flipped and the flags of the other lights are unchanged: the array of
  flags is the old one with element 2 negated.
\<close>

theorem select_3_then_toggle:
  assumes wf: "wf_lights s"
    and p3: "ka (m_window s) GLFW_KEY_3 = GLFW_PRESS" and c3: "\<not> m_keyOnce s GLFW_KEY_3"
    and n4: "ka (m_window s) GLFW_KEY_4 \<noteq> GLFW_PRESS"
    and t1: "ka (m_window s) GLFW_KEY_T = GLFW_RELEASE"
    and t2: "kb (m_window s) GLFW_KEY_T = GLFW_PRESS"
    and others: "\<forall>key\<in>{GLFW_KEY_1, GLFW_KEY_2, GLFW_KEY_4}. kb (m_window s) key = GLFW_RELEASE"
  shows "\<exists>s1 s2. HandleInteractiveShortcuts ka w s = Inr s1
           \<and> m_selectedPointLight s1 = 2
           \<and> m_pointLightOn s1 = m_pointLightOn s
           \<and> HandleInteractiveShortcuts kb w s1 = Inr s2
           \<and> m_selectedPointLight s2 = 2
           \<and> m_pointLightOn s2 = (m_pointLightOn s)[2 := \<not> m_pointLightOn s ! 2]"
proof -
  from HIS_effect [OF wf, of ka w]
  obtain s1 where s1: "HandleInteractiveShortcuts ka w s = Inr s1"
    and win1: "m_window s1 = m_window s"
    and latch1: "\<forall>k\<in>edge_keys. m_keyOnce s1 k = latch_next (ka (m_window s) k) (m_keyOnce s k)"
    and sel1: "m_selectedPointLight s1 = selected_after ka s"
    and on1: "m_pointLightOn s1 =
          (if fires ka s GLFW_KEY_T
           then (m_pointLightOn s)[nat (selected_after ka s) := \<not> m_pointLightOn s ! nat (selected_after ka s)]
           else m_pointLightOn s)"
    by blast
  have wf1: "wf_lights s1"
    using HIS_wf_lights [OF wf s1] .
  have two: "m_selectedPointLight s1 = 2"
    using p3 c3 n4 by (simp add: sel1 selected_after_def fires_def held_def)
  have same: "m_pointLightOn s1 = m_pointLightOn s"
    using t1 by (simp add: on1 fires_def held_def)
  have l3: "m_keyOnce s1 GLFW_KEY_3" and lt: "\<not> m_keyOnce s1 GLFW_KEY_T"
    using latch1 p3 t1 by (simp_all add: edge_keys_def latch_next_def)
  from HIS_effect [OF wf1, of kb w]
  obtain s2 where s2: "HandleInteractiveShortcuts kb w s1 = Inr s2"
    and sel2: "m_selectedPointLight s2 = selected_after kb s1"
    and on2: "m_pointLightOn s2 =
          (if fires kb s1 GLFW_KEY_T
           then (m_pointLightOn s1)[nat (selected_after kb s1) := \<not> m_pointLightOn s1 ! nat (selected_after kb s1)]
           else m_pointLightOn s1)"
    by blast
  have keep: "selected_after kb s1 = 2"
    using others l3 two by (simp add: selected_after_def fires_def held_def win1)
  have fire: "fires kb s1 GLFW_KEY_T"
    using t2 lt by (simp add: fires_def held_def win1)
  have "m_pointLightOn s2 = (m_pointLightOn s)[2 := \<not> m_pointLightOn s ! 2]"
    by (simp add: on2 fire keep same)
  with s1 two same s2 sel2 keep show ?thesis by simp
qed

theorem select_3_then_toggle_witness:
  "wf_lights example_this
   \<and> press_only GLFW_KEY_3 (m_window example_this) GLFW_KEY_3 = GLFW_PRESS
   \<and> \<not> m_keyOnce example_this GLFW_KEY_3
   \<and> press_only GLFW_KEY_3 (m_window example_this) GLFW_KEY_4 \<noteq> GLFW_PRESS
   \<and> press_only GLFW_KEY_3 (m_window example_this) GLFW_KEY_T = GLFW_RELEASE
   \<and> press_only GLFW_KEY_T (m_window example_this) GLFW_KEY_T = GLFW_PRESS
   \<and> press_only GLFW_KEY_T (m_window example_this) GLFW_KEY_1 = GLFW_RELEASE
   \<and> press_only GLFW_KEY_T (m_window example_this) GLFW_KEY_2 = GLFW_RELEASE
   \<and> press_only GLFW_KEY_T (m_window example_this) GLFW_KEY_4 = GLFW_RELEASE
   \<and> (\<exists>s1 s2. HandleInteractiveShortcuts (press_only GLFW_KEY_3) (Some 1) example_this = Inr s1
           \<and> m_selectedPointLight s1 = 2
           \<and> m_pointLightOn s1 = [True, True, True, True]
           \<and> HandleInteractiveShortcuts (press_only GLFW_KEY_T) (Some 1) s1 = Inr s2
           \<and> m_selectedPointLight s2 = 2
           \<and> m_pointLightOn s2 = [True, True, False, True])"
proof -
  have h1: "press_only GLFW_KEY_3 (m_window example_this) GLFW_KEY_3 = GLFW_PRESS"
    and h2: "\<not> m_keyOnce example_this GLFW_KEY_3"
    and h3: "press_only GLFW_KEY_3 (m_window example_this) GLFW_KEY_4 \<noteq> GLFW_PRESS"
    and h4: "press_only GLFW_KEY_3 (m_window example_this) GLFW_KEY_T = GLFW_RELEASE"
    and h5: "press_only GLFW_KEY_T (m_window example_this) GLFW_KEY_T = GLFW_PRESS"
    and h6: "\<forall>key\<in>{GLFW_KEY_1, GLFW_KEY_2, GLFW_KEY_4}.
         press_only GLFW_KEY_T (m_window example_this) key = GLFW_RELEASE"
    by (simp_all add: press_only_def example_this_def)
  have on: "m_pointLightOn example_this = [True, True, True, True]"
    by (simp add: example_this_def)
  have upd: "[True, True, True, True][2 := \<not> [True, True, True, True] ! 2] = [True, True, False, True]"
    by (simp add: numeral_2_eq_2)
  from select_3_then_toggle [where s = example_this and ka = "press_only GLFW_KEY_3"
      and kb = "press_only GLFW_KEY_T" and w = "Some 1", OF example_this_wf h1 h2 h3 h4 h5 h6]
  show ?thesis
    using example_this_wf h1 h2 h3 h4 h5 h6 unfolding on upd by simp
qed

section \<open>The camera under look events\<close>











lemma Mouse_Position_Callback_eq:
  assumes "g_pCamera g = Some c"
  shows "Mouse_Position_Callback mx my g =
     Inr (g\<lparr>gLastX := float_round mx, gLastY := float_round my, gFirstMouse := False,
            g_pCamera := Some (ProcessMouseMovement
              (float_round (mx - (if gFirstMouse g then float_round mx else gLastX g)))
              (float_round ((if gFirstMouse g then float_round my else gLastY g) - my)) c)\<rparr>)"
proof (cases "gFirstMouse g")
  case True
  then show ?thesis
    using assms by (simp add: Mouse_Position_Callback_def Let_def)
next
  case False
  with assms show ?thesis
    by (simp add: Mouse_Position_Callback_def Let_def)
qed

lemma dispatch_total:
  assumes "g_pCamera g = Some c"
  shows "\<exists>g' c'. dispatch e g = Inr g' \<and> g_pCamera g' = Some c'"
proof (cases e)
  case (CursorPos mx my)
  then show ?thesis
    using Mouse_Position_Callback_eq [OF assms, of mx my] by simp
next
  case (Scroll xo yo)
  then show ?thesis
    using Scroll_Callback_zoom [OF assms, of xo yo] by auto
qed

lemma dispatch_all_total:
  assumes "g_pCamera g = Some c"
  shows "\<exists>g' c'. dispatch_all es g = Inr g' \<and> g_pCamera g' = Some c'"
  using assms
proof (induction es arbitrary: g c)
  case Nil
  then show ?case by simp
next
  case (Cons e es)
  from dispatch_total [OF Cons.prems, of e]
  obtain g1 c1 where "dispatch e g = Inr g1" and "g_pCamera g1 = Some c1"
    by blast
  with Cons.IH [of g1 c1] show ?case
    by simp
qed









section \<open>One frame of PrepareSceneView\<close>

lemma dispatch_keeps:
  assumes "dispatch e g = Inr g'"
  shows "bOrthographicProjection g' = bOrthographicProjection g
       \<and> gDeltaTime g' = gDeltaTime g \<and> gLastFrame g' = gLastFrame g"
proof (cases e)
  case (CursorPos mx my)
  with assms show ?thesis
    by (auto simp add: Mouse_Position_Callback_def Let_def split: option.splits if_splits)
next
  case (Scroll xo yo)
  with assms show ?thesis
    by (auto simp add: Scroll_Callback_def Let_def split: option.splits)
qed

lemma dispatch_all_keeps:
  assumes "dispatch_all es g = Inr g'"
  shows "bOrthographicProjection g' = bOrthographicProjection g
       \<and> gDeltaTime g' = gDeltaTime g \<and> gLastFrame g' = gLastFrame g"
  using assms
proof (induction es arbitrary: g)
  case Nil
  then show ?case by simp
next
  case (Cons e es)
  from Cons.prems obtain g1 where g1: "dispatch e g = Inr g1" and rest: "dispatch_all es g1 = Inr g'"
    by (auto simp add: bind_r_eq_Inr)
  from Cons.IH [OF rest] dispatch_keeps [OF g1] show ?case
    by simp
qed

lemma wait_while_pressed_returns:
  assumes "g_pCamera g = Some c" and "\<exists>p\<in>set polls. fst p \<noteq> GLFW_PRESS"
  shows "\<exists>g' c'. wait_while_pressed polls g = Inr g' \<and> g_pCamera g' = Some c'
           \<and> bOrthographicProjection g' = bOrthographicProjection g
           \<and> gDeltaTime g' = gDeltaTime g \<and> gLastFrame g' = gLastFrame g"
  using assms
proof (induction polls arbitrary: g c)
  case Nil
  then show ?case by simp
next
  case (Cons p polls)
  obtain state events where p: "p = (state, events)"
    by (cases p)
  show ?case
  proof (cases "state = GLFW_PRESS")
    case False
    with p Cons.prems(1) show ?thesis by simp
  next
    case True
    from dispatch_all_total [OF Cons.prems(1), of events]
    obtain g1 c1 where g1: "dispatch_all events g = Inr g1" and c1: "g_pCamera g1 = Some c1"
      by blast
    from Cons.prems(2) p True have "\<exists>p\<in>set polls. fst p \<noteq> GLFW_PRESS"
      by simp
    from Cons.IH [OF c1 this] dispatch_all_keeps [OF g1] g1 p True show ?thesis
      by simp
  qed
qed

lemma wait_while_pressed_held:
  assumes "g_pCamera g = Some c" and "\<forall>p\<in>set polls. fst p = GLFW_PRESS"
  shows "wait_while_pressed polls g = Inl InputExhausted"
  using assms
proof (induction polls arbitrary: g c)
  case Nil
  then show ?case by simp
next
  case (Cons p polls)
  obtain state events where p: "p = (state, events)"
    by (cases p)
  from dispatch_all_total [OF Cons.prems(1), of events]
  obtain g1 c1 where g1: "dispatch_all events g = Inr g1" and c1: "g_pCamera g1 = Some c1"
    by blast
  from Cons.prems(2) have "\<forall>p\<in>set polls. fst p = GLFW_PRESS"
    by simp
  from Cons.IH [OF c1 this] Cons.prems(2) p g1 show ?case
    by simp
qed

lemma held_ProcessKeyboard_step:
  "if_held G w key (camera_ProcessKeyboard pk direction) (g\<lparr>g_pCamera := Some c\<rparr>)
     = Inr (g\<lparr>g_pCamera := Some (cond (held G w key) (pk direction (gDeltaTime g)) c)\<rparr>)"
  by (simp add: if_held_eq cond_def camera_ProcessKeyboard_def)

lemma ProcessKeyboardEvents_moves:
  assumes "g_pCamera g = Some c"
  shows "run_steps
       [if_held G w GLFW_KEY_W (camera_ProcessKeyboard pk FORWARD),
        if_held G w GLFW_KEY_S (camera_ProcessKeyboard pk BACKWARD),
        if_held G w GLFW_KEY_A (camera_ProcessKeyboard pk LEFT),
        if_held G w GLFW_KEY_D (camera_ProcessKeyboard pk RIGHT),
        if_held G w GLFW_KEY_Q (camera_ProcessKeyboard pk UP),
        if_held G w GLFW_KEY_E (camera_ProcessKeyboard pk DOWN)] g
     = Inr (g\<lparr>g_pCamera := Some (keyboard_moved pk G w (gDeltaTime g) c)\<rparr>)"
proof -
  have "run_steps
       [if_held G w GLFW_KEY_W (camera_ProcessKeyboard pk FORWARD),
        if_held G w GLFW_KEY_S (camera_ProcessKeyboard pk BACKWARD),
        if_held G w GLFW_KEY_A (camera_ProcessKeyboard pk LEFT),
        if_held G w GLFW_KEY_D (camera_ProcessKeyboard pk RIGHT),
        if_held G w GLFW_KEY_Q (camera_ProcessKeyboard pk UP),
        if_held G w GLFW_KEY_E (camera_ProcessKeyboard pk DOWN)] (g\<lparr>g_pCamera := Some c\<rparr>)
     = Inr (g\<lparr>g_pCamera := Some (keyboard_moved pk G w (gDeltaTime g) c)\<rparr>)"
    unfolding run_steps.simps held_ProcessKeyboard_step bind_r_Inr keyboard_moved_def
    by (rule refl)
  moreover have "g\<lparr>g_pCamera := Some c\<rparr> = g"
    using assms by simp
  ultimately show ?thesis by simp
qed

lemma ProcessKeyboardEvents_split:
  "ProcessKeyboardEvents pk G polls this g =
     bind_r (run_steps
       [if_held G (m_pWindow this) GLFW_KEY_W (camera_ProcessKeyboard pk FORWARD),
        if_held G (m_pWindow this) GLFW_KEY_S (camera_ProcessKeyboard pk BACKWARD),
        if_held G (m_pWindow this) GLFW_KEY_A (camera_ProcessKeyboard pk LEFT),
        if_held G (m_pWindow this) GLFW_KEY_D (camera_ProcessKeyboard pk RIGHT),
        if_held G (m_pWindow this) GLFW_KEY_Q (camera_ProcessKeyboard pk UP),
        if_held G (m_pWindow this) GLFW_KEY_E (camera_ProcessKeyboard pk DOWN)] g)
       (if_held G (m_pWindow this) GLFW_KEY_P (toggle_projection polls))"
proof -
  have unit: "bind_r m (run_steps []) = m" for m :: "error + globals"
    by (cases m) simp_all
  have "run_steps (fs @ [f]) g = bind_r (run_steps fs g) f" for fs f
    by (cases "run_steps fs g") (simp_all add: run_steps_append unit)
  from this [of "[if_held G (m_pWindow this) GLFW_KEY_W (camera_ProcessKeyboard pk FORWARD),
        if_held G (m_pWindow this) GLFW_KEY_S (camera_ProcessKeyboard pk BACKWARD),
        if_held G (m_pWindow this) GLFW_KEY_A (camera_ProcessKeyboard pk LEFT),
        if_held G (m_pWindow this) GLFW_KEY_D (camera_ProcessKeyboard pk RIGHT),
        if_held G (m_pWindow this) GLFW_KEY_Q (camera_ProcessKeyboard pk UP),
        if_held G (m_pWindow this) GLFW_KEY_E (camera_ProcessKeyboard pk DOWN)]"
      "if_held G (m_pWindow this) GLFW_KEY_P (toggle_projection polls)"]
  show ?thesis
    unfolding ProcessKeyboardEvents_def by simp
qed

lemma ProcessKeyboardEvents_effect:
  assumes cam: "g_pCamera g = Some c"
    and rel: "held G (m_pWindow this) GLFW_KEY_P \<longrightarrow> (\<exists>p\<in>set polls. fst p \<noteq> GLFW_PRESS)"
  shows "\<exists>g' c'. ProcessKeyboardEvents pk G polls this g = Inr g' \<and> g_pCamera g' = Some c'
      \<and> bOrthographicProjection g' = (bOrthographicProjection g \<noteq> held G (m_pWindow this) GLFW_KEY_P)
      \<and> gDeltaTime g' = gDeltaTime g \<and> gLastFrame g' = gLastFrame g
      \<and> (\<not> held G (m_pWindow this) GLFW_KEY_P \<longrightarrow>
            g' = g\<lparr>g_pCamera := Some (keyboard_moved pk G (m_pWindow this) (gDeltaTime g) c)\<rparr>)"
proof -
  define gm where "gm = g\<lparr>g_pCamera := Some (keyboard_moved pk G (m_pWindow this) (gDeltaTime g) c)\<rparr>"
  have run: "ProcessKeyboardEvents pk G polls this g =
      if_held G (m_pWindow this) GLFW_KEY_P (toggle_projection polls) gm"
    unfolding ProcessKeyboardEvents_split ProcessKeyboardEvents_moves [OF cam] gm_def
    by simp
  show ?thesis
  proof (cases "held G (m_pWindow this) GLFW_KEY_P")
    case False
    then show ?thesis
      by (simp add: run if_held_eq gm_def)
  next
    case True
    with rel have "\<exists>p\<in>set polls. fst p \<noteq> GLFW_PRESS"
      by simp
    from wait_while_pressed_returns [OF _ this,
        of "gm\<lparr>bOrthographicProjection := \<not> bOrthographicProjection gm\<rparr>"
           "keyboard_moved pk G (m_pWindow this) (gDeltaTime g) c"]
    obtain g' c' where "wait_while_pressed polls (gm\<lparr>bOrthographicProjection := \<not> bOrthographicProjection gm\<rparr>) = Inr g'"
      and "g_pCamera g' = Some c'"
      and "bOrthographicProjection g' = (\<not> bOrthographicProjection gm)"
      and "gDeltaTime g' = gDeltaTime gm" and "gLastFrame g' = gLastFrame gm"
      by (auto simp add: gm_def)
    with True show ?thesis
      by (simp add: run if_held_eq toggle_projection_def gm_def)
  qed
qed

lemma PrepareSceneView_effect:
  assumes cam: "g_pCamera g = Some c"
    and rel: "held G (m_pWindow this) GLFW_KEY_P \<longrightarrow> (\<exists>p\<in>set polls. fst p \<noteq> GLFW_PRESS)"
  shows "\<exists>r cam. PrepareSceneView pk G polls currentFrame this g = Inr r
      \<and> ProcessKeyboardEvents pk G polls this
           (g\<lparr>gDeltaTime := currentFrame - gLastFrame g, gLastFrame := currentFrame\<rparr>)
         = Inr (frame_globals r)
      \<and> g_pCamera (frame_globals r) = Some cam
      \<and> gDeltaTime (frame_globals r) = currentFrame - gLastFrame g
      \<and> gLastFrame (frame_globals r) = currentFrame
      \<and> bOrthographicProjection (frame_globals r)
           = (bOrthographicProjection g \<noteq> held G (m_pWindow this) GLFW_KEY_P)
      \<and> view r = GetViewMatrix cam
      \<and> projection r =
           (if bOrthographicProjection (frame_globals r)
            then glm_ortho (- 5 * (1000 / 800)) (5 * (1000 / 800)) (- 5) 5 0.1 100
            else glm_perspective (glm_radians (Zoom cam)) (1000 / 800) 0.1 100)
      \<and> shader_writes r =
           (if m_pShaderManager this = None then []
            else [(''view'', Mat4Value (view r)), (''projection'', Mat4Value (projection r)),
                  (''viewPosition'', Vec3Value (Position cam))])"
proof -
  define g1 where "g1 = g\<lparr>gDeltaTime := currentFrame - gLastFrame g, gLastFrame := currentFrame\<rparr>"
  have cam1: "g_pCamera g1 = Some c"
    using cam by (simp add: g1_def)
  from ProcessKeyboardEvents_effect [OF cam1 rel]
  obtain g2 c2 where g2: "ProcessKeyboardEvents pk G polls this g1 = Inr g2"
    and c2: "g_pCamera g2 = Some c2"
    and o2: "bOrthographicProjection g2 = (bOrthographicProjection g1 \<noteq> held G (m_pWindow this) GLFW_KEY_P)"
    and t2: "gDeltaTime g2 = gDeltaTime g1" "gLastFrame g2 = gLastFrame g1"
    by blast
  show ?thesis
    using g2 c2 o2 t2
    by (simp add: PrepareSceneView_def Let_def g1_def [symmetric] WINDOW_WIDTH_def WINDOW_HEIGHT_def
        g_ViewName_def g_ProjectionName_def)
       (simp add: g1_def)
qed

text \<open>
  Claim C5. The projection flag starts as perspective. A call of
  \<^verbatim>\<open>PrepareSceneView\<close> with a camera returns when the P key is not pressed or is
  read released at some evaluation of the waiting loop; the flag is then the old one,
  negated if P read pressed at the start of the frame, and the projection matrix is
  built by branching on it: orthographic with the half-extent 5 (times the aspect ratio
  1000/800 horizontally), near 0.1 and far 100, or perspective with the camera's zoom
  converted from degrees, the aspect ratio 1000/800, near 0.1 and far 100.
\<close>

theorem projection_matrix_by_mode:
  assumes "g_pCamera g = Some c"
    and "G (m_pWindow this) GLFW_KEY_P = GLFW_PRESS \<longrightarrow> (\<exists>p\<in>set polls. fst p \<noteq> GLFW_PRESS)"
  shows "bOrthographicProjection globals_init = False
     \<and> (\<exists>r cam. PrepareSceneView pk G polls currentFrame this g = Inr r
          \<and> g_pCamera (frame_globals r) = Some cam
          \<and> bOrthographicProjection (frame_globals r)
               = (bOrthographicProjection g \<noteq> (G (m_pWindow this) GLFW_KEY_P = GLFW_PRESS))
          \<and> projection r =
               (if bOrthographicProjection (frame_globals r)
                then glm_ortho (- 5 * (1000 / 800)) (5 * (1000 / 800)) (- 5) 5 0.1 100
                else glm_perspective (glm_radians (Zoom cam)) (1000 / 800) 0.1 100))"
proof -
  have rel: "held G (m_pWindow this) GLFW_KEY_P \<longrightarrow> (\<exists>p\<in>set polls. fst p \<noteq> GLFW_PRESS)"
    using assms(2) by (simp add: held_def)
  from PrepareSceneView_effect [OF assms(1) rel, where currentFrame = currentFrame and pk = pk]
  obtain r cam where "PrepareSceneView pk G polls currentFrame this g = Inr r"
    and "g_pCamera (frame_globals r) = Some cam"
    and "bOrthographicProjection (frame_globals r)
           = (bOrthographicProjection g \<noteq> held G (m_pWindow this) GLFW_KEY_P)"
    and "projection r =
           (if bOrthographicProjection (frame_globals r)
            then glm_ortho (- 5 * (1000 / 800)) (5 * (1000 / 800)) (- 5) 5 0.1 100
            else glm_perspective (glm_radians (Zoom cam)) (1000 / 800) 0.1 100)"
    by blast
  moreover have "bOrthographicProjection globals_init = False"
    by (simp add: globals_init_def)
  ultimately show ?thesis
    unfolding held_def by blast
qed

theorem projection_matrix_by_mode_witness:
  "g_pCamera startup_globals = Some startup_camera
   \<and> press_only GLFW_KEY_P (m_pWindow startup_this) GLFW_KEY_P = GLFW_PRESS
   \<and> fst (GLFW_RELEASE, [] :: event list) \<noteq> GLFW_PRESS
   \<and> bOrthographicProjection startup_globals = False
   \<and> (\<exists>r cam. PrepareSceneView example_ProcessKeyboard (press_only GLFW_KEY_P)
                  [(GLFW_PRESS, []), (GLFW_RELEASE, [])] 1 startup_this startup_globals = Inr r
          \<and> g_pCamera (frame_globals r) = Some cam
          \<and> bOrthographicProjection (frame_globals r)
          \<and> projection r = glm_ortho (- 5 * (1000 / 800)) (5 * (1000 / 800)) (- 5) 5 0.1 100)"
proof -
  have p: "press_only GLFW_KEY_P (m_pWindow startup_this) GLFW_KEY_P = GLFW_PRESS"
    by (simp add: press_only_def)
  have h: "press_only GLFW_KEY_P (m_pWindow startup_this) GLFW_KEY_P = GLFW_PRESS
      \<longrightarrow> (\<exists>p\<in>set [(GLFW_PRESS, [] :: event list), (GLFW_RELEASE, [])]. fst p \<noteq> GLFW_PRESS)"
    by simp
  have o: "bOrthographicProjection startup_globals = False"
    by (simp add: startup_globals_def ViewManager_ctor_def globals_init_def)
  from projection_matrix_by_mode [where pk = example_ProcessKeyboard
      and G = "press_only GLFW_KEY_P" and this = startup_this
      and polls = "[(GLFW_PRESS, []), (GLFW_RELEASE, [])]" and currentFrame = 1,
      OF startup_globals_camera h]
  obtain r cam where "PrepareSceneView example_ProcessKeyboard (press_only GLFW_KEY_P)
                  [(GLFW_PRESS, []), (GLFW_RELEASE, [])] 1 startup_this startup_globals = Inr r"
    and "g_pCamera (frame_globals r) = Some cam"
    and "bOrthographicProjection (frame_globals r)
               = (bOrthographicProjection startup_globals
                   \<noteq> (press_only GLFW_KEY_P (m_pWindow startup_this) GLFW_KEY_P = GLFW_PRESS))"
    and "projection r =
               (if bOrthographicProjection (frame_globals r)
                then glm_ortho (- 5 * (1000 / 800)) (5 * (1000 / 800)) (- 5) 5 0.1 100
                else glm_perspective (glm_radians (Zoom cam)) (1000 / 800) 0.1 100)"
    by blast
  then have "\<exists>r cam. PrepareSceneView example_ProcessKeyboard (press_only GLFW_KEY_P)
                  [(GLFW_PRESS, []), (GLFW_RELEASE, [])] 1 startup_this startup_globals = Inr r
          \<and> g_pCamera (frame_globals r) = Some cam
          \<and> bOrthographicProjection (frame_globals r)
          \<and> projection r = glm_ortho (- 5 * (1000 / 800)) (5 * (1000 / 800)) (- 5) 5 0.1 100"
    using p o by auto
  with startup_globals_camera p o show ?thesis
    by simp
qed

lemma ProcessKeyboardEvents_shader:
  "ProcessKeyboardEvents pk G polls (this\<lparr>m_pShaderManager := p\<rparr>) g = ProcessKeyboardEvents pk G polls this g"
  by (simp add: ProcessKeyboardEvents_def)

lemma PrepareSceneView_null_shader:
  assumes "PrepareSceneView pk G polls currentFrame this g = Inr r"
  shows "PrepareSceneView pk G polls currentFrame (this\<lparr>m_pShaderManager := None\<rparr>) g
           = Inr (r\<lparr>shader_writes := []\<rparr>)"
proof -
  define g1 where "g1 = g\<lparr>gDeltaTime := currentFrame - gLastFrame g, gLastFrame := currentFrame\<rparr>"
  from assms obtain g2 where g2: "ProcessKeyboardEvents pk G polls this g1 = Inr g2"
    by (auto simp add: PrepareSceneView_def Let_def g1_def bind_r_eq_Inr)
  from assms g2 obtain c where c: "g_pCamera g2 = Some c"
    by (cases "g_pCamera g2") (simp_all add: PrepareSceneView_def Let_def g1_def [symmetric])
  from assms show ?thesis
    by (simp add: PrepareSceneView_def Let_def g1_def [symmetric] g2 c ProcessKeyboardEvents_shader
        close_requested_def)
       (auto simp add: frame_result.defs)
qed

text \<open>
  Claim C9 fails in the scene-rendering path. With a null shader manager, the setters
  for the texture, the UV scale, the transformation and the colour write nothing and
  return, but \<^verbatim>\<open>SetShaderMaterial\<close> with the tag of a defined material dereferences
  the null pointer, and so does \<^verbatim>\<open>ApplyAndDraw\<close>. The arguments are the ones of the
  first object that \<^verbatim>\<open>RenderScene\<close> draws (lines 601 to 604).
\<close>

theorem SetShaderMaterial_null_shader:
  "m_pShaderManager_scene null_shader_scene = None
   \<and> SetShaderTexture ''wood'' null_shader_scene = Inr []
   \<and> SetTextureUVScale 1 1 null_shader_scene = Inr []
   \<and> SetTransformations (glm_vec3 2 1 2) 0 0 0 (glm_vec3 0 0 0.2) null_shader_scene = Inr []
   \<and> SetShaderColor 0.1 0.05 0.01 1 null_shader_scene = Inr []
   \<and> SetShaderMaterial ''wood'' null_shader_scene = Inl NullPointerDereference
   \<and> ApplyAndDraw ''wood'' ''wood'' (1, 1) (glm_vec3 2 1 2) 0 0 0 (glm_vec3 0 0 0.2) null_shader_scene
       = Inl NullPointerDereference"
  by (simp add: null_shader_scene_def SetShaderTexture_def SetTextureUVScale_def
      SetTransformations_def SetShaderColor_def SetShaderMaterial_def ApplyAndDraw_def
      FindMaterial_def wood_def Let_def)

section \<open>Keys that fire once per press\<close>

lemma HIS_frames_append:
  "HandleInteractiveShortcuts_frames (ks @ ls) w s =
     bind_r (HandleInteractiveShortcuts_frames ks w s) (HandleInteractiveShortcuts_frames ls w)"
proof (induction ks arbitrary: s)
  case Nil
  show ?case by simp
next
  case (Cons k ks)
  show ?case
    by (cases "HandleInteractiveShortcuts k w s") (simp_all add: Cons.IH)
qed

lemma HIS_latch:
  assumes wf: "wf_lights s" and key: "key \<in> edge_keys"
  shows "\<exists>s'. HandleInteractiveShortcuts G w s = Inr s' \<and> wf_lights s'
           \<and> m_window s' = m_window s
           \<and> m_keyOnce s' key = latch_next (G (m_window s) key) (m_keyOnce s key)"
proof -
  from HIS_effect [OF wf, of G w]
  obtain s' where s': "HandleInteractiveShortcuts G w s = Inr s'"
    and "m_window s' = m_window s"
    and "\<forall>k\<in>edge_keys. m_keyOnce s' k = latch_next (G (m_window s) k) (m_keyOnce s k)"
    by blast
  with key HIS_wf_lights [OF wf s'] show ?thesis
    by blast
qed

lemma HIS_frames_held:
  assumes "wf_lights s" and "key \<in> edge_keys" and "m_keyOnce s key"
    and "\<forall>h\<in>set hs. h (m_window s) key = GLFW_PRESS"
  shows "\<exists>s'. HandleInteractiveShortcuts_frames hs w s = Inr s' \<and> wf_lights s'
           \<and> m_window s' = m_window s \<and> m_keyOnce s' key"
  using assms
proof (induction hs arbitrary: s)
  case Nil
  then show ?case by simp
next
  case (Cons h hs)
  from HIS_latch [OF Cons.prems(1,2), of h w]
  obtain s1 where s1: "HandleInteractiveShortcuts h w s = Inr s1" and wf1: "wf_lights s1"
    and win1: "m_window s1 = m_window s"
    and l1: "m_keyOnce s1 key = latch_next (h (m_window s) key) (m_keyOnce s key)"
    by blast
  have on: "m_keyOnce s1 key"
    using Cons.prems(4) by (simp add: l1 latch_next_def)
  have rest: "\<forall>h\<in>set hs. h (m_window s1) key = GLFW_PRESS"
    using Cons.prems(4) by (simp add: win1)
  from Cons.IH [OF wf1 Cons.prems(2) on rest] s1 win1 show ?case
    by simp
qed

lemma HIS_press_pattern:
  assumes wf: "wf_lights s" and key: "key \<in> edge_keys"
    and rel: "r (m_window s) key = GLFW_RELEASE"
    and prs: "p (m_window s) key = GLFW_PRESS"
    and hold: "\<forall>h\<in>set hs. h (m_window s) key = GLFW_PRESS"
  shows "\<exists>s1 s2. HandleInteractiveShortcuts r w s = Inr s1
           \<and> \<not> fst (KeyPressedOnce r key s)
           \<and> HandleInteractiveShortcuts p w s1 = Inr s2
           \<and> fst (KeyPressedOnce p key s1)
           \<and> (\<forall>pre h post. hs = pre @ h # post \<longrightarrow>
                 (\<exists>s3. HandleInteractiveShortcuts_frames pre w s2 = Inr s3
                       \<and> \<not> fst (KeyPressedOnce h key s3)))"
proof -
  from HIS_latch [OF wf key, of r w]
  obtain s1 where s1: "HandleInteractiveShortcuts r w s = Inr s1" and wf1: "wf_lights s1"
    and win1: "m_window s1 = m_window s"
    and l1: "m_keyOnce s1 key = latch_next (r (m_window s) key) (m_keyOnce s key)"
    by blast
  have clear: "\<not> m_keyOnce s1 key"
    using rel by (simp add: l1 latch_next_def)
  have nofire: "\<not> fst (KeyPressedOnce r key s)"
    using rel by (simp add: KeyPressedOnce_eq fires_def held_def)
  from HIS_latch [OF wf1 key, of p w]
  obtain s2 where s2: "HandleInteractiveShortcuts p w s1 = Inr s2" and wf2: "wf_lights s2"
    and win2: "m_window s2 = m_window s1"
    and l2: "m_keyOnce s2 key = latch_next (p (m_window s1) key) (m_keyOnce s1 key)"
    by blast
  have fire: "fst (KeyPressedOnce p key s1)"
    using prs clear by (simp add: KeyPressedOnce_eq fires_def held_def win1)
  have on: "m_keyOnce s2 key"
    using prs by (simp add: l2 latch_next_def win1)
  have later: "\<exists>s3. HandleInteractiveShortcuts_frames pre w s2 = Inr s3
                       \<and> \<not> fst (KeyPressedOnce h key s3)"
    if "hs = pre @ h # post" for pre h post
  proof -
    from that hold have "\<forall>h\<in>set pre. h (m_window s2) key = GLFW_PRESS"
      by (simp add: win2 win1)
    from HIS_frames_held [OF wf2 key on this, of w]
    obtain s3 where "HandleInteractiveShortcuts_frames pre w s2 = Inr s3" and "m_keyOnce s3 key"
      by blast
    then show ?thesis
      by (simp add: KeyPressedOnce_eq fires_def)
  qed
  from s1 nofire s2 fire later show ?thesis
    by blast
qed

lemma HIS_actions:
  assumes wf: "wf_lights s"
  shows "\<exists>s'. HandleInteractiveShortcuts G w s = Inr s'
     \<and> m_moveSpeedScale s' =
          (if fst (KeyPressedOnce G GLFW_KEY_X s)
           then min 8.0 ((if fst (KeyPressedOnce G GLFW_KEY_Z s) then max 0.25 (m_moveSpeedScale s * 0.5)
                          else m_moveSpeedScale s) * 2.0)
           else (if fst (KeyPressedOnce G GLFW_KEY_Z s) then max 0.25 (m_moveSpeedScale s * 0.5)
                 else m_moveSpeedScale s))
     \<and> m_selectedPointLight s' =
          (if fst (KeyPressedOnce G GLFW_KEY_4 s) then 3
           else if fst (KeyPressedOnce G GLFW_KEY_3 s) then 2
           else if fst (KeyPressedOnce G GLFW_KEY_2 s) then 1
           else if fst (KeyPressedOnce G GLFW_KEY_1 s) then 0
           else m_selectedPointLight s)
     \<and> m_dirLightOn s' = (m_dirLightOn s \<noteq> fst (KeyPressedOnce G GLFW_KEY_L s))
     \<and> m_flashlightOn s' = (m_flashlightOn s \<noteq> fst (KeyPressedOnce G GLFW_KEY_F s))
     \<and> m_pointLightOn s' =
          (if fst (KeyPressedOnce G GLFW_KEY_T s)
           then (m_pointLightOn s)[nat (m_selectedPointLight s') :=
                  \<not> m_pointLightOn s ! nat (m_selectedPointLight s')]
           else m_pointLightOn s)"
proof -
  from HIS_effect [OF wf, of G w]
  obtain s' where "HandleInteractiveShortcuts G w s = Inr s'"
    and "m_moveSpeedScale s' = scale_after G s"
    and "m_selectedPointLight s' = selected_after G s"
    and "m_dirLightOn s' = (if fires G s GLFW_KEY_L then \<not> m_dirLightOn s else m_dirLightOn s)"
    and "m_flashlightOn s' = (if fires G s GLFW_KEY_F then \<not> m_flashlightOn s else m_flashlightOn s)"
    and "m_pointLightOn s' =
          (if fires G s GLFW_KEY_T
           then (m_pointLightOn s)[nat (selected_after G s) := \<not> m_pointLightOn s ! nat (selected_after G s)]
           else m_pointLightOn s)"
    by blast
  then show ?thesis
    by (intro exI [of _ s'])
       (simp add: KeyPressedOnce_eq scale_after_def selected_after_def cond_def)
qed

lemma ProcessKeyboardEvents_run:
  assumes "g_pCamera g = Some c"
  shows "ProcessKeyboardEvents pk G polls this g =
      if_held G (m_pWindow this) GLFW_KEY_P (toggle_projection polls)
        (g\<lparr>g_pCamera := Some (keyboard_moved pk G (m_pWindow this) (gDeltaTime g) c)\<rparr>)"
  unfolding ProcessKeyboardEvents_split ProcessKeyboardEvents_moves [OF assms]
  by simp

lemma ProcessKeyboardEvents_P_held:
  assumes cam: "g_pCamera g = Some c"
    and p: "G (m_pWindow this) GLFW_KEY_P = GLFW_PRESS"
    and held: "\<forall>q\<in>set polls. fst q = GLFW_PRESS"
  shows "ProcessKeyboardEvents pk G polls this g = Inl InputExhausted"
proof -
  define gm where "gm = g\<lparr>g_pCamera := Some (keyboard_moved pk G (m_pWindow this) (gDeltaTime g) c)\<rparr>"
  have "g_pCamera (gm\<lparr>bOrthographicProjection := \<not> bOrthographicProjection gm\<rparr>)
          = Some (keyboard_moved pk G (m_pWindow this) (gDeltaTime g) c)"
    by (simp add: gm_def)
  from wait_while_pressed_held [OF this held] p show ?thesis
    by (simp add: ProcessKeyboardEvents_run [OF cam] if_held_eq held_def toggle_projection_def
        gm_def [symmetric])
qed

text \<open>
  Claim C1. For each of the keys Z, X, 1, 2, 3, 4, L, F and T: in a frame where the
  key reads released \<^verbatim>\<open>KeyPressedOnce\<close> does not fire; in the next frame, where it
  reads pressed, it fires; and in none of the following frames in which it still reads
  pressed does it fire again, however many there are. In every frame the action of
  such a key (halving or doubling the speed scale, selecting a light, flipping a
  switch) is carried out exactly when \<^verbatim>\<open>KeyPressedOnce\<close> fires for it on the state
  at the start of the frame. The P key has no latch: \<^verbatim>\<open>ProcessKeyboardEvents\<close> leaves
  the projection flag alone when P does not read pressed, and when it does, negates
  the flag once and returns only after the waiting loop has read the key as no longer
  pressed, whatever the number of reads in between; while every read is pressed the
  call does not return.
\<close>

theorem edge_triggered_actions_fire_once_per_press:
  assumes wf: "wf_lights s" and key: "key \<in> edge_keys"
    and rel: "r (m_window s) key = GLFW_RELEASE"
    and prs: "p (m_window s) key = GLFW_PRESS"
    and hold: "\<forall>h\<in>set hs. h (m_window s) key = GLFW_PRESS"
    and cam: "g_pCamera g = Some c"
    and up: "G0 (m_pWindow this) GLFW_KEY_P \<noteq> GLFW_PRESS"
    and down: "G1 (m_pWindow this) GLFW_KEY_P = GLFW_PRESS"
    and waiting: "\<forall>q\<in>set helds. fst q = GLFW_PRESS"
    and released: "state \<noteq> GLFW_PRESS"
  shows "(\<exists>s1 s2. HandleInteractiveShortcuts r w s = Inr s1
           \<and> \<not> fst (KeyPressedOnce r key s)
           \<and> HandleInteractiveShortcuts p w s1 = Inr s2
           \<and> fst (KeyPressedOnce p key s1)
           \<and> (\<forall>pre h post. hs = pre @ h # post \<longrightarrow>
                 (\<exists>s3. HandleInteractiveShortcuts_frames pre w s2 = Inr s3
                       \<and> \<not> fst (KeyPressedOnce h key s3))))
     \<and> (\<exists>s'. HandleInteractiveShortcuts G w s = Inr s'
           \<and> m_moveSpeedScale s' =
                (if fst (KeyPressedOnce G GLFW_KEY_X s)
                 then min 8.0 ((if fst (KeyPressedOnce G GLFW_KEY_Z s) then max 0.25 (m_moveSpeedScale s * 0.5)
                                else m_moveSpeedScale s) * 2.0)
                 else (if fst (KeyPressedOnce G GLFW_KEY_Z s) then max 0.25 (m_moveSpeedScale s * 0.5)
                       else m_moveSpeedScale s))
           \<and> m_selectedPointLight s' =
                (if fst (KeyPressedOnce G GLFW_KEY_4 s) then 3
                 else if fst (KeyPressedOnce G GLFW_KEY_3 s) then 2
                 else if fst (KeyPressedOnce G GLFW_KEY_2 s) then 1
                 else if fst (KeyPressedOnce G GLFW_KEY_1 s) then 0
                 else m_selectedPointLight s)
           \<and> m_dirLightOn s' = (m_dirLightOn s \<noteq> fst (KeyPressedOnce G GLFW_KEY_L s))
           \<and> m_flashlightOn s' = (m_flashlightOn s \<noteq> fst (KeyPressedOnce G GLFW_KEY_F s))
           \<and> m_pointLightOn s' =
                (if fst (KeyPressedOnce G GLFW_KEY_T s)
                 then (m_pointLightOn s)[nat (m_selectedPointLight s') :=
                        \<not> m_pointLightOn s ! nat (m_selectedPointLight s')]
                 else m_pointLightOn s))
     \<and> (\<exists>g'. ProcessKeyboardEvents pk G0 polls this g = Inr g'
           \<and> bOrthographicProjection g' = bOrthographicProjection g)
     \<and> (\<exists>g'. ProcessKeyboardEvents pk G1 (helds @ (state, events) # rest) this g = Inr g'
           \<and> bOrthographicProjection g' = (\<not> bOrthographicProjection g))
     \<and> ProcessKeyboardEvents pk G1 helds this g = Inl InputExhausted"
proof (intro conjI)
  show "\<exists>s1 s2. HandleInteractiveShortcuts r w s = Inr s1
           \<and> \<not> fst (KeyPressedOnce r key s)
           \<and> HandleInteractiveShortcuts p w s1 = Inr s2
           \<and> fst (KeyPressedOnce p key s1)
           \<and> (\<forall>pre h post. hs = pre @ h # post \<longrightarrow>
                 (\<exists>s3. HandleInteractiveShortcuts_frames pre w s2 = Inr s3
                       \<and> \<not> fst (KeyPressedOnce h key s3)))"
    using wf key rel prs hold by (rule HIS_press_pattern)
next
  show "\<exists>s'. HandleInteractiveShortcuts G w s = Inr s'
           \<and> m_moveSpeedScale s' =
                (if fst (KeyPressedOnce G GLFW_KEY_X s)
                 then min 8.0 ((if fst (KeyPressedOnce G GLFW_KEY_Z s) then max 0.25 (m_moveSpeedScale s * 0.5)
                                else m_moveSpeedScale s) * 2.0)
                 else (if fst (KeyPressedOnce G GLFW_KEY_Z s) then max 0.25 (m_moveSpeedScale s * 0.5)
                       else m_moveSpeedScale s))
           \<and> m_selectedPointLight s' =
                (if fst (KeyPressedOnce G GLFW_KEY_4 s) then 3
                 else if fst (KeyPressedOnce G GLFW_KEY_3 s) then 2
                 else if fst (KeyPressedOnce G GLFW_KEY_2 s) then 1
                 else if fst (KeyPressedOnce G GLFW_KEY_1 s) then 0
                 else m_selectedPointLight s)
           \<and> m_dirLightOn s' = (m_dirLightOn s \<noteq> fst (KeyPressedOnce G GLFW_KEY_L s))
           \<and> m_flashlightOn s' = (m_flashlightOn s \<noteq> fst (KeyPressedOnce G GLFW_KEY_F s))
           \<and> m_pointLightOn s' =
                (if fst (KeyPressedOnce G GLFW_KEY_T s)
                 then (m_pointLightOn s)[nat (m_selectedPointLight s') :=
                        \<not> m_pointLightOn s ! nat (m_selectedPointLight s')]
                 else m_pointLightOn s)"
    using HIS_actions [OF wf] .
next
  have "held G0 (m_pWindow this) GLFW_KEY_P \<longrightarrow> (\<exists>q\<in>set polls. fst q \<noteq> GLFW_PRESS)"
    using up by (simp add: held_def)
  from ProcessKeyboardEvents_effect [OF cam this] up
  show "\<exists>g'. ProcessKeyboardEvents pk G0 polls this g = Inr g'
           \<and> bOrthographicProjection g' = bOrthographicProjection g"
    by (auto simp add: held_def)
next
  have "held G1 (m_pWindow this) GLFW_KEY_P
      \<longrightarrow> (\<exists>q\<in>set (helds @ (state, events) # rest). fst q \<noteq> GLFW_PRESS)"
    using released by auto
  from ProcessKeyboardEvents_effect [OF cam this] down
  show "\<exists>g'. ProcessKeyboardEvents pk G1 (helds @ (state, events) # rest) this g = Inr g'
           \<and> bOrthographicProjection g' = (\<not> bOrthographicProjection g)"
    by (auto simp add: held_def)
next
  show "ProcessKeyboardEvents pk G1 helds this g = Inl InputExhausted"
    using cam down waiting by (rule ProcessKeyboardEvents_P_held)
qed

theorem edge_triggered_actions_fire_once_per_press_witness:
  "(wf_lights example_this \<and> GLFW_KEY_L \<in> edge_keys
    \<and> press_only 0 (m_window example_this) GLFW_KEY_L = GLFW_RELEASE
    \<and> press_only GLFW_KEY_L (m_window example_this) GLFW_KEY_L = GLFW_PRESS
    \<and> g_pCamera startup_globals = Some startup_camera
    \<and> press_only 0 (m_pWindow startup_this) GLFW_KEY_P \<noteq> GLFW_PRESS
    \<and> press_only GLFW_KEY_P (m_pWindow startup_this) GLFW_KEY_P = GLFW_PRESS
    \<and> fst (GLFW_PRESS, [] :: event list) = GLFW_PRESS
    \<and> GLFW_RELEASE \<noteq> GLFW_PRESS)
   \<and> ((\<exists>s1 s2. HandleInteractiveShortcuts (press_only 0) (Some 1) example_this = Inr s1
           \<and> \<not> fst (KeyPressedOnce (press_only 0) GLFW_KEY_L example_this)
           \<and> HandleInteractiveShortcuts (press_only GLFW_KEY_L) (Some 1) s1 = Inr s2
           \<and> fst (KeyPressedOnce (press_only GLFW_KEY_L) GLFW_KEY_L s1)
           \<and> (\<forall>pre h post. [press_only GLFW_KEY_L, press_only GLFW_KEY_L] = pre @ h # post \<longrightarrow>
                 (\<exists>s3. HandleInteractiveShortcuts_frames pre (Some 1) s2 = Inr s3
                       \<and> \<not> fst (KeyPressedOnce h GLFW_KEY_L s3))))
     \<and> (\<exists>s'. HandleInteractiveShortcuts (press_only GLFW_KEY_L) (Some 1) example_this = Inr s'
           \<and> m_moveSpeedScale s' =
                (if fst (KeyPressedOnce (press_only GLFW_KEY_L) GLFW_KEY_X example_this)
                 then min 8.0 ((if fst (KeyPressedOnce (press_only GLFW_KEY_L) GLFW_KEY_Z example_this) then max 0.25 (m_moveSpeedScale example_this * 0.5)
                                else m_moveSpeedScale example_this) * 2.0)
                 else (if fst (KeyPressedOnce (press_only GLFW_KEY_L) GLFW_KEY_Z example_this) then max 0.25 (m_moveSpeedScale example_this * 0.5)
                       else m_moveSpeedScale example_this))
           \<and> m_selectedPointLight s' =
                (if fst (KeyPressedOnce (press_only GLFW_KEY_L) GLFW_KEY_4 example_this) then 3
                 else if fst (KeyPressedOnce (press_only GLFW_KEY_L) GLFW_KEY_3 example_this) then 2
                 else if fst (KeyPressedOnce (press_only GLFW_KEY_L) GLFW_KEY_2 example_this) then 1
                 else if fst (KeyPressedOnce (press_only GLFW_KEY_L) GLFW_KEY_1 example_this) then 0
                 else m_selectedPointLight example_this)
           \<and> m_dirLightOn s' = (m_dirLightOn example_this \<noteq> fst (KeyPressedOnce (press_only GLFW_KEY_L) GLFW_KEY_L example_this))
           \<and> m_flashlightOn s' = (m_flashlightOn example_this \<noteq> fst (KeyPressedOnce (press_only GLFW_KEY_L) GLFW_KEY_F example_this))
           \<and> m_pointLightOn s' =
                (if fst (KeyPressedOnce (press_only GLFW_KEY_L) GLFW_KEY_T example_this)
                 then (m_pointLightOn example_this)[nat (m_selectedPointLight s') :=
                        \<not> m_pointLightOn example_this ! nat (m_selectedPointLight s')]
                 else m_pointLightOn example_this))
     \<and> (\<exists>g'. ProcessKeyboardEvents example_ProcessKeyboard (press_only 0) [] startup_this startup_globals = Inr g'
           \<and> bOrthographicProjection g' = bOrthographicProjection startup_globals)
     \<and> (\<exists>g'. ProcessKeyboardEvents example_ProcessKeyboard (press_only GLFW_KEY_P) ([(GLFW_PRESS, [])] @ (GLFW_RELEASE, []) # []) startup_this startup_globals = Inr g'
           \<and> bOrthographicProjection g' = (\<not> bOrthographicProjection startup_globals))
     \<and> ProcessKeyboardEvents example_ProcessKeyboard (press_only GLFW_KEY_P) [(GLFW_PRESS, [])] startup_this startup_globals = Inl InputExhausted)"
proof -
  have key: "GLFW_KEY_L \<in> edge_keys"
    by (simp add: edge_keys_def)
  have rel: "press_only 0 (m_window example_this) GLFW_KEY_L = GLFW_RELEASE"
    and prs: "press_only GLFW_KEY_L (m_window example_this) GLFW_KEY_L = GLFW_PRESS"
    and hold: "\<forall>h\<in>set [press_only GLFW_KEY_L, press_only GLFW_KEY_L].
                 h (m_window example_this) GLFW_KEY_L = GLFW_PRESS"
    and up: "press_only 0 (m_pWindow startup_this) GLFW_KEY_P \<noteq> GLFW_PRESS"
    and down: "press_only GLFW_KEY_P (m_pWindow startup_this) GLFW_KEY_P = GLFW_PRESS"
    and waiting: "\<forall>q\<in>set [(GLFW_PRESS, [] :: event list)]. fst q = GLFW_PRESS"
    and released: "GLFW_RELEASE \<noteq> GLFW_PRESS"
    by (simp_all add: press_only_def)
  have hyps: "wf_lights example_this \<and> GLFW_KEY_L \<in> edge_keys
    \<and> press_only 0 (m_window example_this) GLFW_KEY_L = GLFW_RELEASE
    \<and> press_only GLFW_KEY_L (m_window example_this) GLFW_KEY_L = GLFW_PRESS
    \<and> g_pCamera startup_globals = Some startup_camera
    \<and> press_only 0 (m_pWindow startup_this) GLFW_KEY_P \<noteq> GLFW_PRESS
    \<and> press_only GLFW_KEY_P (m_pWindow startup_this) GLFW_KEY_P = GLFW_PRESS
    \<and> fst (GLFW_PRESS, [] :: event list) = GLFW_PRESS
    \<and> GLFW_RELEASE \<noteq> GLFW_PRESS"
    using example_this_wf key rel prs startup_globals_camera up down by simp
  note t = edge_triggered_actions_fire_once_per_press
    [where s = example_this and key = GLFW_KEY_L and r = "press_only 0"
       and p = "press_only GLFW_KEY_L" and hs = "[press_only GLFW_KEY_L, press_only GLFW_KEY_L]"
       and g = startup_globals and c = startup_camera and this = startup_this
       and ?G0.0 = "press_only 0" and ?G1.0 = "press_only GLFW_KEY_P"
       and pk = example_ProcessKeyboard
       and helds = "[(GLFW_PRESS, [])]" and state = GLFW_RELEASE
       and w = "Some 1" and G = "press_only GLFW_KEY_L" and polls = "[]"
       and events = "[]" and rest = "[]",
     OF example_this_wf key rel prs hold startup_globals_camera up down waiting released]
  from hyps t show ?thesis
    by (rule conjI)
qed

section \<open>Keys that act while they are held\<close>

lemma frame_speed_eq:
  "frame_speed G w s =
     3.0 * m_moveSpeedScale s * 0.016 * (if G w GLFW_KEY_LEFT_SHIFT = GLFW_PRESS then 2 else 1)"
  by (simp add: frame_speed_def Let_def)

text \<open>
  Claim C2, as amended. In a frame of \<^verbatim>\<open>HandleInteractiveShortcuts\<close> (the selected
  light being one of the four) the held keys share one distance, which is proportional
  to the speed scale and doubled while Left Shift is held: it is the speed scale times
  the distance of a frame with the speed scale 1 and Left Shift released, which is
  positive, and twice that with Left Shift held. The camera moves by that distance
  along front (W, S), right (D, A) and up (E, Q), and the selected light by that
  distance along x (Right, Left), z (Down, Up) and y (Page Up, Page Down). The ambient
  boost changes by the constant 0.001 for each of its two keys, clamped to the interval
  from 0 to 0.3, whatever the speed scale and Left Shift. A frame of
  \<^verbatim>\<open>PrepareSceneView\<close> with a camera and the P key not pressed sets the delta-time to
  the time stamp minus the last frame's, and passes that delta-time to the camera's
  \<^verbatim>\<open>ProcessKeyboard\<close> for each of W, S, A, D, Q and E that is held, in this order.
\<close>

theorem held_key_magnitudes:
  assumes wf: "wf_lights s" and cam: "g_pCamera g = Some c"
    and nop: "G (m_pWindow this) GLFW_KEY_P \<noteq> GLFW_PRESS"
  shows "(\<exists>s'. HandleInteractiveShortcuts G w s = Inr s'
      \<and> 0 < frame_speed (\<lambda>window key. GLFW_RELEASE) w (s\<lparr>m_moveSpeedScale := 1\<rparr>)
      \<and> frame_speed G w s =
           frame_speed (\<lambda>window key. GLFW_RELEASE) w (s\<lparr>m_moveSpeedScale := 1\<rparr>)
             * m_moveSpeedScale s * (if G w GLFW_KEY_LEFT_SHIFT = GLFW_PRESS then 2 else 1)
      \<and> m_camera s' = (m_camera s)\<lparr>Position :=
           vadd (Position (m_camera s))
             (vadd (vadd (vscale (Front (m_camera s)) (axis (held G w GLFW_KEY_W) (held G w GLFW_KEY_S) * frame_speed G w s))
                         (vscale (Right (m_camera s)) (axis (held G w GLFW_KEY_D) (held G w GLFW_KEY_A) * frame_speed G w s)))
                   (vscale (Up (m_camera s)) (axis (held G w GLFW_KEY_E) (held G w GLFW_KEY_Q) * frame_speed G w s)))\<rparr>
      \<and> m_pointLightPos s' = (m_pointLightPos s)
            [nat (m_selectedPointLight s') :=
               (m_pointLightPos s ! nat (m_selectedPointLight s'))
                 \<lparr>x := x (m_pointLightPos s ! nat (m_selectedPointLight s'))
                        + axis (held G w GLFW_KEY_RIGHT) (held G w GLFW_KEY_LEFT) * frame_speed G w s,
                  z := z (m_pointLightPos s ! nat (m_selectedPointLight s'))
                        + axis (held G w GLFW_KEY_DOWN) (held G w GLFW_KEY_UP) * frame_speed G w s,
                  y := y (m_pointLightPos s ! nat (m_selectedPointLight s'))
                        + axis (held G w GLFW_KEY_PAGE_UP) (held G w GLFW_KEY_PAGE_DOWN) * frame_speed G w s\<rparr>]
      \<and> m_ambientBoost s' =
           (if held G w GLFW_KEY_APOSTROPHE
            then min 0.3 ((if held G w GLFW_KEY_SEMICOLON then max 0.0 (m_ambientBoost s - 0.001)
                           else m_ambientBoost s) + 0.001)
            else (if held G w GLFW_KEY_SEMICOLON then max 0.0 (m_ambientBoost s - 0.001)
                  else m_ambientBoost s)))
    \<and> (\<exists>r. PrepareSceneView pk G polls currentFrame this g = Inr r
      \<and> gDeltaTime (frame_globals r) = currentFrame - gLastFrame g
      \<and> gLastFrame (frame_globals r) = currentFrame
      \<and> g_pCamera (frame_globals r) = Some
           (cond (held G (m_pWindow this) GLFW_KEY_E) (pk DOWN (currentFrame - gLastFrame g))
             (cond (held G (m_pWindow this) GLFW_KEY_Q) (pk UP (currentFrame - gLastFrame g))
               (cond (held G (m_pWindow this) GLFW_KEY_D) (pk RIGHT (currentFrame - gLastFrame g))
                 (cond (held G (m_pWindow this) GLFW_KEY_A) (pk LEFT (currentFrame - gLastFrame g))
                   (cond (held G (m_pWindow this) GLFW_KEY_S) (pk BACKWARD (currentFrame - gLastFrame g))
                     (cond (held G (m_pWindow this) GLFW_KEY_W) (pk FORWARD (currentFrame - gLastFrame g)) c)))))))"
proof (intro conjI)
  from HIS_effect [OF wf, of G w]
  obtain s' where run: "HandleInteractiveShortcuts G w s = Inr s'"
    and c': "m_camera s' = translate (m_camera s)
            (vadd (vadd (vscale (Front (m_camera s)) (axis (held G w GLFW_KEY_W) (held G w GLFW_KEY_S) * frame_speed G w s))
                        (vscale (Right (m_camera s)) (axis (held G w GLFW_KEY_D) (held G w GLFW_KEY_A) * frame_speed G w s)))
                  (vscale (Up (m_camera s)) (axis (held G w GLFW_KEY_E) (held G w GLFW_KEY_Q) * frame_speed G w s)))"
    and sel': "m_selectedPointLight s' = selected_after G s"
    and p': "m_pointLightPos s' = (m_pointLightPos s)
            [nat (selected_after G s) :=
               (m_pointLightPos s ! nat (selected_after G s))
                 \<lparr>x := x (m_pointLightPos s ! nat (selected_after G s))
                        + axis (held G w GLFW_KEY_RIGHT) (held G w GLFW_KEY_LEFT) * frame_speed G w s,
                  z := z (m_pointLightPos s ! nat (selected_after G s))
                        + axis (held G w GLFW_KEY_DOWN) (held G w GLFW_KEY_UP) * frame_speed G w s,
                  y := y (m_pointLightPos s ! nat (selected_after G s))
                        + axis (held G w GLFW_KEY_PAGE_UP) (held G w GLFW_KEY_PAGE_DOWN) * frame_speed G w s\<rparr>]"
    and a': "m_ambientBoost s' =
          cond (held G w GLFW_KEY_APOSTROPHE) (\<lambda>v. min 0.3 (v + 0.001))
            (cond (held G w GLFW_KEY_SEMICOLON) (\<lambda>v. max 0.0 (v - 0.001)) (m_ambientBoost s))"
    by blast
  define unit where "unit = frame_speed (\<lambda>window key. GLFW_RELEASE) w (s\<lparr>m_moveSpeedScale := 1\<rparr>)"
  define speed where "speed = frame_speed G w s"
  have u: "0 < unit"
    by (simp add: unit_def frame_speed_eq)
  have sp: "speed = unit * m_moveSpeedScale s * (if G w GLFW_KEY_LEFT_SHIFT = GLFW_PRESS then 2 else 1)"
    by (simp add: unit_def speed_def frame_speed_eq)
  have main: "\<exists>s'. HandleInteractiveShortcuts G w s = Inr s'
      \<and> 0 < unit
      \<and> speed = unit * m_moveSpeedScale s * (if G w GLFW_KEY_LEFT_SHIFT = GLFW_PRESS then 2 else 1)
      \<and> m_camera s' = (m_camera s)\<lparr>Position :=
           vadd (Position (m_camera s))
             (vadd (vadd (vscale (Front (m_camera s)) (axis (held G w GLFW_KEY_W) (held G w GLFW_KEY_S) * speed))
                         (vscale (Right (m_camera s)) (axis (held G w GLFW_KEY_D) (held G w GLFW_KEY_A) * speed)))
                   (vscale (Up (m_camera s)) (axis (held G w GLFW_KEY_E) (held G w GLFW_KEY_Q) * speed)))\<rparr>
      \<and> m_pointLightPos s' = (m_pointLightPos s)
            [nat (m_selectedPointLight s') :=
               (m_pointLightPos s ! nat (m_selectedPointLight s'))
                 \<lparr>x := x (m_pointLightPos s ! nat (m_selectedPointLight s'))
                        + axis (held G w GLFW_KEY_RIGHT) (held G w GLFW_KEY_LEFT) * speed,
                  z := z (m_pointLightPos s ! nat (m_selectedPointLight s'))
                        + axis (held G w GLFW_KEY_DOWN) (held G w GLFW_KEY_UP) * speed,
                  y := y (m_pointLightPos s ! nat (m_selectedPointLight s'))
                        + axis (held G w GLFW_KEY_PAGE_UP) (held G w GLFW_KEY_PAGE_DOWN) * speed\<rparr>]
      \<and> m_ambientBoost s' =
           (if held G w GLFW_KEY_APOSTROPHE
            then min 0.3 ((if held G w GLFW_KEY_SEMICOLON then max 0.0 (m_ambientBoost s - 0.001)
                           else m_ambientBoost s) + 0.001)
            else (if held G w GLFW_KEY_SEMICOLON then max 0.0 (m_ambientBoost s - 0.001)
                  else m_ambientBoost s))"
    unfolding sel' [symmetric]
    using run u sp c' [folded speed_def] p' [folded sel' speed_def] a' [unfolded cond_def]
    by (intro exI [of _ s']) (simp add: translate_def)
  show "\<exists>s'. HandleInteractiveShortcuts G w s = Inr s'
      \<and> 0 < frame_speed (\<lambda>window key. GLFW_RELEASE) w (s\<lparr>m_moveSpeedScale := 1\<rparr>)
      \<and> frame_speed G w s =
           frame_speed (\<lambda>window key. GLFW_RELEASE) w (s\<lparr>m_moveSpeedScale := 1\<rparr>)
             * m_moveSpeedScale s * (if G w GLFW_KEY_LEFT_SHIFT = GLFW_PRESS then 2 else 1)
      \<and> m_camera s' = (m_camera s)\<lparr>Position :=
           vadd (Position (m_camera s))
             (vadd (vadd (vscale (Front (m_camera s)) (axis (held G w GLFW_KEY_W) (held G w GLFW_KEY_S) * frame_speed G w s))
                         (vscale (Right (m_camera s)) (axis (held G w GLFW_KEY_D) (held G w GLFW_KEY_A) * frame_speed G w s)))
                   (vscale (Up (m_camera s)) (axis (held G w GLFW_KEY_E) (held G w GLFW_KEY_Q) * frame_speed G w s)))\<rparr>
      \<and> m_pointLightPos s' = (m_pointLightPos s)
            [nat (m_selectedPointLight s') :=
               (m_pointLightPos s ! nat (m_selectedPointLight s'))
                 \<lparr>x := x (m_pointLightPos s ! nat (m_selectedPointLight s'))
                        + axis (held G w GLFW_KEY_RIGHT) (held G w GLFW_KEY_LEFT) * frame_speed G w s,
                  z := z (m_pointLightPos s ! nat (m_selectedPointLight s'))
                        + axis (held G w GLFW_KEY_DOWN) (held G w GLFW_KEY_UP) * frame_speed G w s,
                  y := y (m_pointLightPos s ! nat (m_selectedPointLight s'))
                        + axis (held G w GLFW_KEY_PAGE_UP) (held G w GLFW_KEY_PAGE_DOWN) * frame_speed G w s\<rparr>]
      \<and> m_ambientBoost s' =
           (if held G w GLFW_KEY_APOSTROPHE
            then min 0.3 ((if held G w GLFW_KEY_SEMICOLON then max 0.0 (m_ambientBoost s - 0.001)
                           else m_ambientBoost s) + 0.001)
            else (if held G w GLFW_KEY_SEMICOLON then max 0.0 (m_ambientBoost s - 0.001)
                  else m_ambientBoost s))"
    using main unfolding unit_def speed_def .
next
  define dt where "dt = currentFrame - gLastFrame g"
  define g1 where "g1 = g\<lparr>gDeltaTime := dt, gLastFrame := currentFrame\<rparr>"
  have cam1: "g_pCamera g1 = Some c"
    using cam by (simp add: g1_def)
  have nop': "\<not> held G (m_pWindow this) GLFW_KEY_P"
    using nop by (simp add: held_def)
  then have rel: "held G (m_pWindow this) GLFW_KEY_P \<longrightarrow> (\<exists>p\<in>set polls. fst p \<noteq> GLFW_PRESS)"
    by simp
  from ProcessKeyboardEvents_effect [OF cam1 rel, where pk = pk] nop'
  have pke: "ProcessKeyboardEvents pk G polls this g1
      = Inr (g1\<lparr>g_pCamera := Some (keyboard_moved pk G (m_pWindow this) (gDeltaTime g1) c)\<rparr>)"
    by auto
  from PrepareSceneView_effect [OF cam rel, where currentFrame = currentFrame and pk = pk]
  obtain r where r: "PrepareSceneView pk G polls currentFrame this g = Inr r"
    and fg: "ProcessKeyboardEvents pk G polls this
           (g\<lparr>gDeltaTime := currentFrame - gLastFrame g, gLastFrame := currentFrame\<rparr>)
         = Inr (frame_globals r)"
    by blast
  from fg pke have "frame_globals r
      = g1\<lparr>g_pCamera := Some (keyboard_moved pk G (m_pWindow this) (gDeltaTime g1) c)\<rparr>"
    by (simp add: g1_def dt_def)
  with r show "\<exists>r. PrepareSceneView pk G polls currentFrame this g = Inr r
      \<and> gDeltaTime (frame_globals r) = currentFrame - gLastFrame g
      \<and> gLastFrame (frame_globals r) = currentFrame
      \<and> g_pCamera (frame_globals r) = Some
           (cond (held G (m_pWindow this) GLFW_KEY_E) (pk DOWN (currentFrame - gLastFrame g))
             (cond (held G (m_pWindow this) GLFW_KEY_Q) (pk UP (currentFrame - gLastFrame g))
               (cond (held G (m_pWindow this) GLFW_KEY_D) (pk RIGHT (currentFrame - gLastFrame g))
                 (cond (held G (m_pWindow this) GLFW_KEY_A) (pk LEFT (currentFrame - gLastFrame g))
                   (cond (held G (m_pWindow this) GLFW_KEY_S) (pk BACKWARD (currentFrame - gLastFrame g))
                     (cond (held G (m_pWindow this) GLFW_KEY_W) (pk FORWARD (currentFrame - gLastFrame g)) c))))))"
    by (intro exI [of _ r]) (simp add: g1_def dt_def keyboard_moved_def)
qed

text \<open>
  An instance: W and Left Shift held, the speed scale 1, and a frame a quarter of a
  second after the last one.
\<close>

theorem held_key_magnitudes_witness:
  "(wf_lights example_this \<and> g_pCamera startup_globals = Some startup_camera \<and> (press_both GLFW_KEY_W GLFW_KEY_LEFT_SHIFT) (m_pWindow startup_this) GLFW_KEY_P \<noteq> GLFW_PRESS)
   \<and> ((\<exists>s'. HandleInteractiveShortcuts (press_both GLFW_KEY_W GLFW_KEY_LEFT_SHIFT) (Some 1) example_this = Inr s'
      \<and> 0 < frame_speed (\<lambda>window key. GLFW_RELEASE) (Some 1) (example_this\<lparr>m_moveSpeedScale := 1\<rparr>)
      \<and> frame_speed (press_both GLFW_KEY_W GLFW_KEY_LEFT_SHIFT) (Some 1) example_this =
           frame_speed (\<lambda>window key. GLFW_RELEASE) (Some 1) (example_this\<lparr>m_moveSpeedScale := 1\<rparr>)
             * m_moveSpeedScale example_this * (if (press_both GLFW_KEY_W GLFW_KEY_LEFT_SHIFT) (Some 1) GLFW_KEY_LEFT_SHIFT = GLFW_PRESS then 2 else 1)
      \<and> m_camera s' = (m_camera example_this)\<lparr>Position :=
           vadd (Position (m_camera example_this))
             (vadd (vadd (vscale (Front (m_camera example_this)) (axis (held (press_both GLFW_KEY_W GLFW_KEY_LEFT_SHIFT) (Some 1) GLFW_KEY_W) (held (press_both GLFW_KEY_W GLFW_KEY_LEFT_SHIFT) (Some 1) GLFW_KEY_S) * frame_speed (press_both GLFW_KEY_W GLFW_KEY_LEFT_SHIFT) (Some 1) example_this))
                         (vscale (Right (m_camera example_this)) (axis (held (press_both GLFW_KEY_W GLFW_KEY_LEFT_SHIFT) (Some 1) GLFW_KEY_D) (held (press_both GLFW_KEY_W GLFW_KEY_LEFT_SHIFT) (Some 1) GLFW_KEY_A) * frame_speed (press_both GLFW_KEY_W GLFW_KEY_LEFT_SHIFT) (Some 1) example_this)))
                   (vscale (Up (m_camera example_this)) (axis (held (press_both GLFW_KEY_W GLFW_KEY_LEFT_SHIFT) (Some 1) GLFW_KEY_E) (held (press_both GLFW_KEY_W GLFW_KEY_LEFT_SHIFT) (Some 1) GLFW_KEY_Q) * frame_speed (press_both GLFW_KEY_W GLFW_KEY_LEFT_SHIFT) (Some 1) example_this)))\<rparr>
      \<and> m_pointLightPos s' = (m_pointLightPos example_this)
            [nat (m_selectedPointLight s') :=
               (m_pointLightPos example_this ! nat (m_selectedPointLight s'))
                 \<lparr>x := x (m_pointLightPos example_this ! nat (m_selectedPointLight s'))
                        + axis (held (press_both GLFW_KEY_W GLFW_KEY_LEFT_SHIFT) (Some 1) GLFW_KEY_RIGHT) (held (press_both GLFW_KEY_W GLFW_KEY_LEFT_SHIFT) (Some 1) GLFW_KEY_LEFT) * frame_speed (press_both GLFW_KEY_W GLFW_KEY_LEFT_SHIFT) (Some 1) example_this,
                  z := z (m_pointLightPos example_this ! nat (m_selectedPointLight s'))
                        + axis (held (press_both GLFW_KEY_W GLFW_KEY_LEFT_SHIFT) (Some 1) GLFW_KEY_DOWN) (held (press_both GLFW_KEY_W GLFW_KEY_LEFT_SHIFT) (Some 1) GLFW_KEY_UP) * frame_speed (press_both GLFW_KEY_W GLFW_KEY_LEFT_SHIFT) (Some 1) example_this,
                  y := y (m_pointLightPos example_this ! nat (m_selectedPointLight s'))
                        + axis (held (press_both GLFW_KEY_W GLFW_KEY_LEFT_SHIFT) (Some 1) GLFW_KEY_PAGE_UP) (held (press_both GLFW_KEY_W GLFW_KEY_LEFT_SHIFT) (Some 1) GLFW_KEY_PAGE_DOWN) * frame_speed (press_both GLFW_KEY_W GLFW_KEY_LEFT_SHIFT) (Some 1) example_this\<rparr>]
      \<and> m_ambientBoost s' =
           (if held (press_both GLFW_KEY_W GLFW_KEY_LEFT_SHIFT) (Some 1) GLFW_KEY_APOSTROPHE
            then min 0.3 ((if held (press_both GLFW_KEY_W GLFW_KEY_LEFT_SHIFT) (Some 1) GLFW_KEY_SEMICOLON then max 0.0 (m_ambientBoost example_this - 0.001)
                           else m_ambientBoost example_this) + 0.001)
            else (if held (press_both GLFW_KEY_W GLFW_KEY_LEFT_SHIFT) (Some 1) GLFW_KEY_SEMICOLON then max 0.0 (m_ambientBoost example_this - 0.001)
                  else m_ambientBoost example_this)))
    \<and> (\<exists>r. PrepareSceneView example_ProcessKeyboard (press_both GLFW_KEY_W GLFW_KEY_LEFT_SHIFT) [] (1 / 4) startup_this startup_globals = Inr r
      \<and> gDeltaTime (frame_globals r) = (1 / 4) - gLastFrame startup_globals
      \<and> gLastFrame (frame_globals r) = (1 / 4)
      \<and> g_pCamera (frame_globals r) = Some
           (cond (held (press_both GLFW_KEY_W GLFW_KEY_LEFT_SHIFT) (m_pWindow startup_this) GLFW_KEY_E) (example_ProcessKeyboard DOWN ((1 / 4) - gLastFrame startup_globals))
             (cond (held (press_both GLFW_KEY_W GLFW_KEY_LEFT_SHIFT) (m_pWindow startup_this) GLFW_KEY_Q) (example_ProcessKeyboard UP ((1 / 4) - gLastFrame startup_globals))
               (cond (held (press_both GLFW_KEY_W GLFW_KEY_LEFT_SHIFT) (m_pWindow startup_this) GLFW_KEY_D) (example_ProcessKeyboard RIGHT ((1 / 4) - gLastFrame startup_globals))
                 (cond (held (press_both GLFW_KEY_W GLFW_KEY_LEFT_SHIFT) (m_pWindow startup_this) GLFW_KEY_A) (example_ProcessKeyboard LEFT ((1 / 4) - gLastFrame startup_globals))
                   (cond (held (press_both GLFW_KEY_W GLFW_KEY_LEFT_SHIFT) (m_pWindow startup_this) GLFW_KEY_S) (example_ProcessKeyboard BACKWARD ((1 / 4) - gLastFrame startup_globals))
                     (cond (held (press_both GLFW_KEY_W GLFW_KEY_LEFT_SHIFT) (m_pWindow startup_this) GLFW_KEY_W) (example_ProcessKeyboard FORWARD ((1 / 4) - gLastFrame startup_globals)) startup_camera))))))))"
proof -
  have nop: "(press_both GLFW_KEY_W GLFW_KEY_LEFT_SHIFT) (m_pWindow startup_this) GLFW_KEY_P \<noteq> GLFW_PRESS"
    by (simp add: press_both_def)
  have hyps: "wf_lights example_this \<and> g_pCamera startup_globals = Some startup_camera \<and> (press_both GLFW_KEY_W GLFW_KEY_LEFT_SHIFT) (m_pWindow startup_this) GLFW_KEY_P \<noteq> GLFW_PRESS"
    using example_this_wf startup_globals_camera nop by simp
  note t = held_key_magnitudes
    [where s = example_this and g = startup_globals and c = startup_camera
       and G = "press_both GLFW_KEY_W GLFW_KEY_LEFT_SHIFT" and this = startup_this
       and w = "Some 1" and polls = "[]" and currentFrame = "1 / 4"
       and pk = example_ProcessKeyboard,
     OF example_this_wf startup_globals_camera nop]
  from hyps t show ?thesis
    by (rule conjI)
qed

lemma HIS_example_nudge:
  assumes wf: "wf_lights s"
    and none: "\<forall>k\<in>{GLFW_KEY_1, GLFW_KEY_2, GLFW_KEY_3, GLFW_KEY_4}. G (m_window s) k \<noteq> GLFW_PRESS"
    and sel: "m_selectedPointLight s = 0"
  shows "\<not> isl (HandleInteractiveShortcuts G w s)
    \<and> x (m_pointLightPos (projr (HandleInteractiveShortcuts G w s)) ! 0)
        = x (m_pointLightPos s ! 0)
          + axis (held G w GLFW_KEY_RIGHT) (held G w GLFW_KEY_LEFT) * frame_speed G w s
    \<and> m_ambientBoost (projr (HandleInteractiveShortcuts G w s)) =
          cond (held G w GLFW_KEY_APOSTROPHE) (\<lambda>v. min 0.3 (v + 0.001))
            (cond (held G w GLFW_KEY_SEMICOLON) (\<lambda>v. max 0.0 (v - 0.001)) (m_ambientBoost s))"
proof -
  from HIS_effect [OF wf, of G w]
  obtain s' where run: "HandleInteractiveShortcuts G w s = Inr s'"
    and p': "m_pointLightPos s' = (m_pointLightPos s)
            [nat (selected_after G s) :=
               (m_pointLightPos s ! nat (selected_after G s))
                 \<lparr>x := x (m_pointLightPos s ! nat (selected_after G s))
                        + axis (held G w GLFW_KEY_RIGHT) (held G w GLFW_KEY_LEFT) * frame_speed G w s,
                  z := z (m_pointLightPos s ! nat (selected_after G s))
                        + axis (held G w GLFW_KEY_DOWN) (held G w GLFW_KEY_UP) * frame_speed G w s,
                  y := y (m_pointLightPos s ! nat (selected_after G s))
                        + axis (held G w GLFW_KEY_PAGE_UP) (held G w GLFW_KEY_PAGE_DOWN) * frame_speed G w s\<rparr>]"
    and a': "m_ambientBoost s' =
          cond (held G w GLFW_KEY_APOSTROPHE) (\<lambda>v. min 0.3 (v + 0.001))
            (cond (held G w GLFW_KEY_SEMICOLON) (\<lambda>v. max 0.0 (v - 0.001)) (m_ambientBoost s))"
    by blast
  have keep: "selected_after G s = 0"
    using none sel by (simp add: selected_after_def fires_def held_def)
  have len: "length (m_pointLightPos s) = 4"
    using wf by (simp add: wf_lights_def)
  show ?thesis
    using len by (simp add: run p' a' keep)
qed

text \<open>
  Claim C2 as stated fails. A frame one second long (delta-time 1) and a speed scale
  of 1: the Right key moves the selected light by 3 times 0.016, not by 3 times the
  delta-time. The apostrophe key raises the ambient boost from 0 to 0.001 with the speed
  scale 1, with Left Shift held, and with the speed scale 8 alike.
\<close>

theorem held_key_step_ignores_delta_time:
  "\<not> isl (PrepareSceneView example_ProcessKeyboard (press_only 0) [] 1 startup_this startup_globals)
   \<and> gDeltaTime (frame_globals (projr (PrepareSceneView example_ProcessKeyboard (press_only 0) [] 1 startup_this startup_globals))) = 1
   \<and> \<not> isl (HandleInteractiveShortcuts (press_only GLFW_KEY_RIGHT) (Some 1) example_this)
   \<and> m_moveSpeedScale example_this = 1
   \<and> x (m_pointLightPos (projr (HandleInteractiveShortcuts (press_only GLFW_KEY_RIGHT) (Some 1) example_this)) ! 0)
       = x (m_pointLightPos example_this ! 0) + 3.0 * 1 * 0.016
   \<and> m_ambientBoost example_this = 0
   \<and> m_ambientBoost (projr (HandleInteractiveShortcuts (press_only GLFW_KEY_APOSTROPHE) (Some 1) example_this))
       = 0.001
   \<and> m_ambientBoost (projr (HandleInteractiveShortcuts
         (press_both GLFW_KEY_APOSTROPHE GLFW_KEY_LEFT_SHIFT) (Some 1) example_this))
       = 0.001
   \<and> m_ambientBoost (projr (HandleInteractiveShortcuts (press_only GLFW_KEY_APOSTROPHE) (Some 1)
         (example_this\<lparr>m_moveSpeedScale := 8\<rparr>)))
       = 0.001"
proof -
  have rel: "held (press_only 0) (m_pWindow startup_this) GLFW_KEY_P
      \<longrightarrow> (\<exists>p\<in>set ([] :: poll_script). fst p \<noteq> GLFW_PRESS)"
    by (simp add: held_def press_only_def)
  from PrepareSceneView_effect [where pk = example_ProcessKeyboard
      and G = "press_only 0" and this = startup_this
      and polls = "[]" and currentFrame = 1, OF startup_globals_camera rel]
  obtain r where "PrepareSceneView example_ProcessKeyboard (press_only 0) [] 1 startup_this startup_globals = Inr r"
    and "gDeltaTime (frame_globals r) = 1 - gLastFrame startup_globals"
    by blast
  then have frame: "\<not> isl (PrepareSceneView example_ProcessKeyboard (press_only 0) [] 1 startup_this startup_globals)"
    "gDeltaTime (frame_globals (projr (PrepareSceneView example_ProcessKeyboard (press_only 0) [] 1 startup_this startup_globals))) = 1"
    by (simp_all add: startup_globals_def ViewManager_ctor_def globals_init_def)
  have wf8: "wf_lights (example_this\<lparr>m_moveSpeedScale := 8\<rparr>)"
    using example_this_wf by (simp add: wf_lights_def)
  have n1: "\<forall>k\<in>{GLFW_KEY_1, GLFW_KEY_2, GLFW_KEY_3, GLFW_KEY_4}.
      press_only GLFW_KEY_RIGHT (m_window example_this) k \<noteq> GLFW_PRESS"
    and n2: "\<forall>k\<in>{GLFW_KEY_1, GLFW_KEY_2, GLFW_KEY_3, GLFW_KEY_4}.
      press_only GLFW_KEY_APOSTROPHE (m_window example_this) k \<noteq> GLFW_PRESS"
    and n3: "\<forall>k\<in>{GLFW_KEY_1, GLFW_KEY_2, GLFW_KEY_3, GLFW_KEY_4}.
      press_both GLFW_KEY_APOSTROPHE GLFW_KEY_LEFT_SHIFT (m_window example_this) k \<noteq> GLFW_PRESS"
    and n4: "\<forall>k\<in>{GLFW_KEY_1, GLFW_KEY_2, GLFW_KEY_3, GLFW_KEY_4}.
      press_only GLFW_KEY_APOSTROPHE (m_window (example_this\<lparr>m_moveSpeedScale := 8\<rparr>)) k \<noteq> GLFW_PRESS"
    by (simp_all add: press_only_def press_both_def)
  have sel: "m_selectedPointLight example_this = 0"
    "m_selectedPointLight (example_this\<lparr>m_moveSpeedScale := 8\<rparr>) = 0"
    by (simp_all add: example_this_def)
  note a = HIS_example_nudge [where s = example_this and G = "press_only GLFW_KEY_RIGHT"
      and w = "Some 1", OF example_this_wf n1 sel(1)]
  note b = HIS_example_nudge [where s = example_this and G = "press_only GLFW_KEY_APOSTROPHE"
      and w = "Some 1", OF example_this_wf n2 sel(1)]
  note c = HIS_example_nudge [where s = example_this
      and G = "press_both GLFW_KEY_APOSTROPHE GLFW_KEY_LEFT_SHIFT"
      and w = "Some 1", OF example_this_wf n3 sel(1)]
  note d = HIS_example_nudge [where s = "example_this\<lparr>m_moveSpeedScale := 8\<rparr>"
      and G = "press_only GLFW_KEY_APOSTROPHE" and w = "Some 1", OF wf8 n4 sel(2)]
  have scale: "m_moveSpeedScale example_this = 1" and amb: "m_ambientBoost example_this = 0"
    by (simp_all add: example_this_def)
  have "x (m_pointLightPos (projr (HandleInteractiveShortcuts (press_only GLFW_KEY_RIGHT) (Some 1) example_this)) ! 0)
       = x (m_pointLightPos example_this ! 0) + 3.0 * 1 * 0.016"
    using a by (simp add: axis_def ind_def held_def press_only_def frame_speed_eq scale)
  moreover have "m_ambientBoost (projr (HandleInteractiveShortcuts (press_only GLFW_KEY_APOSTROPHE) (Some 1) example_this))
       = 0.001"
    using b by (simp add: cond_def held_def press_only_def amb)
  moreover have "m_ambientBoost (projr (HandleInteractiveShortcuts
         (press_both GLFW_KEY_APOSTROPHE GLFW_KEY_LEFT_SHIFT) (Some 1) example_this))
       = 0.001"
    using c by (simp add: cond_def held_def press_both_def amb)
  moreover have "m_ambientBoost (projr (HandleInteractiveShortcuts (press_only GLFW_KEY_APOSTROPHE) (Some 1)
         (example_this\<lparr>m_moveSpeedScale := 8\<rparr>)))
       = 0.001"
    using d by (simp add: cond_def held_def press_only_def amb)
  ultimately show ?thesis
    using frame a scale amb by simp
qed

end
